theory Spec2Isabelle
  imports Main "HOL-Library.Log_Nat"
begin

unbundle bit_operations_syntax

section \<open>Numbers, points, boxes\<close>

text \<open>
  A number of the program is a double. Pixel coordinates, attach flags and the sizes an
  image element reports (an \<open>unsigned long\<close>) are modelled on their integer values, as
  \<open>int\<close>; sums, differences and products of such values are exact. The fields of a
  rectangle are arbitrary numbers and are modelled as \<open>rat\<close>: every finite double is a
  rational. NaN, the infinities and magnitudes beyond the range of the doubles are not
  inputs of the model.

  Three conversions are written out. The operators \<open>>>\<close> and \<open>&\<close> truncate their operand
  and reduce it to a signed 32-bit integer (\<open>ToInt32\<close>). The difference of two doubles is
  the double nearest to the exact difference (\<open>toDouble\<close>). A value stored in a slot of
  the draw-parameter buffer, a \<open>Float32Array\<close>, is rounded to single precision
  (\<open>fround\<close>), to nearest with ties to even, and becomes an infinity beyond the range of
  single precision.
\<close>

definition ToInt32 :: "int \<Rightarrow> int" where
  "ToInt32 n = (n + 2 ^ 31) mod 2 ^ 32 - 2 ^ 31"

text \<open>The integer part of a number, towards zero.\<close>

definition truncInt :: "rat \<Rightarrow> int" where
  "truncInt q = (if q \<ge> 0 then \<lfloor>q\<rfloor> else \<lceil>q\<rceil>)"

text \<open>\<open>q >> 1\<close>: the arithmetic shift of the 32-bit value of \<open>q\<close>.\<close>

definition sar1 :: "rat \<Rightarrow> int" where
  "sar1 q = ToInt32 (truncInt q) div 2"

text \<open>
  Binary floating point. For \<open>a > 0\<close>, \<open>floorlog2 a\<close> is the exponent \<open>k\<close> with
  \<open>2^k \<le> a < 2^(k+1)\<close>. \<open>roundBinary p emin\<close> rounds to the nearest number with \<open>p\<close>
  significant bits whose last bit has an exponent of at least \<open>emin\<close> (the subnormal
  range), ties to the even significand.
\<close>

definition floorlog2 :: "rat \<Rightarrow> int" where
  "floorlog2 a =
     (let (n, d) = quotient_of a; k = bitlen n - bitlen d
      in if 2 powi k \<le> a then k else k - 1)"

definition roundHalfEven :: "rat \<Rightarrow> int" where
  "roundHalfEven s =
     (let f = \<lfloor>s\<rfloor>; r = s - of_int f
      in if r > 1 / 2 \<or> (r = 1 / 2 \<and> odd f) then f + 1 else f)"

definition roundBinary :: "nat \<Rightarrow> int \<Rightarrow> rat \<Rightarrow> rat" where
  "roundBinary p emin q =
     (if q = 0 then 0
      else (let e = max (floorlog2 \<bar>q\<bar> - (int p - 1)) emin
            in sgn q * of_int (roundHalfEven (\<bar>q\<bar> / 2 powi e)) * 2 powi e))"

text \<open>A double: 53 significant bits, least exponent -1074.\<close>

definition toDouble :: "rat \<Rightarrow> rat" where
  "toDouble q = roundBinary 53 (- 1074) q"

text \<open>
  An element of a \<open>Float32Array\<close>: 24 significant bits, least exponent -149; a value
  that rounds to 2^128 or beyond is stored as an infinity.
\<close>

datatype float32 = Finite rat | Infinity | NegInfinity

definition fround :: "rat \<Rightarrow> float32" where
  "fround q =
     (let v = roundBinary 24 (- 149) q
      in if v \<ge> 2 ^ 128 then Infinity
         else if v \<le> - (2 ^ 128) then NegInfinity
         else Finite v)"

type_synonym point = "int \<times> int"

record 'n box =
  minX :: 'n
  minY :: 'n
  maxX :: 'n
  maxY :: 'n

datatype error = TypeError | RangeError

section \<open>The Shape leaf\<close>

text \<open>
  A \<open>createjs.Graphics\<close> object lives in a heap, since a shape, its mask list and other
  shapes may share it. Its class is not part of the file; the record holds what the shape
  reads from it (\<open>box\<close>, \<open>isDirty()\<close>, \<open>isEmpty()\<close>, the answer of its own pixel test) and
  whether its render cache is live.
\<close>

type_synonym gref = nat
type_synonym oid = nat
type_synonym renderer = nat

record graphics =
  gbox :: "int box"
  gdirty :: bool
  gempty :: bool
  ghit :: "point \<Rightarrow> bool"
  gcached :: bool

datatype dirty_flag = DIRTY_SHAPE | DIRTY_MASK

text \<open>Calls that a shape issues on objects it does not own.\<close>

datatype shape_call =
  OwnerSetDirty oid dirty_flag
  | GraphicsHitTest gref point
  | SuperLayout

record shape =
  s_graphics :: "gref option"
  s_masks :: "gref list option"
  s_hitTestPoint :: "point option"
  s_hitTestResult :: "oid option"
  s_box :: "int box"
  s_dirty :: "dirty_flag set"
  s_owners :: "oid list option"
  s_compositionId :: int
  s_heap :: "gref \<Rightarrow> graphics"
  s_calls :: "shape_call list"

text \<open>
  Modelled from the spec: \<open>DisplayObject.setBoundingBox\<close>, \<open>setDirty\<close>, \<open>getOwners\<close> and
  \<open>getCompositionId\<close> (display_object.js is not part of the file). The bounding box is
  \<open>{minX, minY, maxX, maxY}\<close>, the dirty mask accumulates independent bits, and the
  owners list may be absent.
\<close>

definition Shape_setBoundingBox :: "int \<Rightarrow> int \<Rightarrow> int \<Rightarrow> int \<Rightarrow> shape \<Rightarrow> shape" where
  "Shape_setBoundingBox x0 y0 x1 y1 s =
     s\<lparr>s_box := \<lparr>minX = x0, minY = y0, maxX = x1, maxY = y1\<rparr>\<rparr>"

definition Shape_setDirty :: "dirty_flag \<Rightarrow> shape \<Rightarrow> shape" where
  "Shape_setDirty flag s = s\<lparr>s_dirty := insert flag (s_dirty s)\<rparr>"

definition getOwners :: "shape \<Rightarrow> oid list option" where
  "getOwners s = s_owners s"

definition getCompositionId :: "shape \<Rightarrow> int" where
  "getCompositionId s = s_compositionId s"

text \<open>
  Modelled from the spec: \<open>Graphics.cache(flag)\<close> builds the render cache of the
  geometry and \<open>Graphics.uncache()\<close> releases it (graphics.js is not part of the file).
\<close>

definition Graphics_cache :: "int \<Rightarrow> gref \<Rightarrow> shape \<Rightarrow> shape" where
  "Graphics_cache flag g s = s\<lparr>s_heap := (s_heap s)(g := (s_heap s g)\<lparr>gcached := True\<rparr>)\<rparr>"

definition Graphics_uncache :: "gref \<Rightarrow> shape \<Rightarrow> shape" where
  "Graphics_uncache g s = s\<lparr>s_heap := (s_heap s)(g := (s_heap s g)\<lparr>gcached := False\<rparr>)\<rparr>"

definition getGraphics :: "shape \<Rightarrow> gref option" where
  "getGraphics s = s_graphics s"

text \<open>The loop \<open>for (i = 0; i < owners.length; ++i) owners[i].setDirty(DIRTY_MASK)\<close>.\<close>

primrec markOwners :: "oid list \<Rightarrow> shape \<Rightarrow> shape" where
  "markOwners [] s = s"
| "markOwners (ow # rest) s =
     markOwners rest (s\<lparr>s_calls := s_calls s @ [OwnerSetDirty ow DIRTY_MASK]\<rparr>)"

definition setGraphics :: "gref option \<Rightarrow> shape \<Rightarrow> shape" where
  "setGraphics graphics s =
     (case getOwners s of
        None \<Rightarrow> s
      | Some owners \<Rightarrow>
          if getCompositionId s \<noteq> 0 then
            (let s1 = s\<lparr>s_graphics := graphics\<rparr> in
             case graphics of
               None \<Rightarrow> s1
             | Some g \<Rightarrow>
                 (let b = gbox (s_heap s1 g);
                      s2 = Shape_setBoundingBox (minX b) (minY b) (maxX b) (maxY b) s1
                  in markOwners owners s2))
          else s)"

text \<open>The loops over \<open>masks_\<close> in \<open>handleAttach\<close> and \<open>handleDetach\<close>.\<close>

primrec cacheMasks :: "int \<Rightarrow> gref list \<Rightarrow> shape \<Rightarrow> shape" where
  "cacheMasks flag [] s = s"
| "cacheMasks flag (m # rest) s = cacheMasks flag rest (Graphics_cache flag m s)"

primrec uncacheMasks :: "gref list \<Rightarrow> shape \<Rightarrow> shape" where
  "uncacheMasks [] s = s"
| "uncacheMasks (m # rest) s = uncacheMasks rest (Graphics_uncache m s)"

text \<open>
  \<open>handleAttach\<close> dereferences the geometry without a check: on a shape whose geometry is
  absent, \<open>graphics.cache\<close> (or \<open>graphics.box\<close> when the flag is zero) raises a TypeError.
\<close>

definition Shape_handleAttach :: "int \<Rightarrow> shape \<Rightarrow> error + shape" where
  "Shape_handleAttach flag s =
     (case getGraphics s of
        None \<Rightarrow> Inl TypeError
      | Some g \<Rightarrow>
          (let s1 = (if flag \<noteq> 0 then
                       (let s' = Graphics_cache flag g s in
                        if ToInt32 flag AND 2 \<noteq> 0 \<and> s_masks s' \<noteq> None
                        then cacheMasks flag (the (s_masks s')) s'
                        else s')
                     else s);
               b = gbox (s_heap s1 g)
           in Inr (Shape_setBoundingBox (minX b) (minY b) (maxX b) (maxY b) s1)))"

definition Shape_handleDetach :: "shape \<Rightarrow> shape" where
  "Shape_handleDetach s =
     (let s1 = (case s_graphics s of
                  Some g \<Rightarrow> (Graphics_uncache g s)\<lparr>s_graphics := None\<rparr>
                | None \<Rightarrow> s)
      in case s_masks s1 of
           Some ms \<Rightarrow> (uncacheMasks ms s1)\<lparr>s_masks := None\<rparr>
         | None \<Rightarrow> s1)"

definition Shape_removeAllChildren :: "shape \<Rightarrow> shape" where
  "Shape_removeAllChildren s = Shape_handleDetach s"

definition addGraphics :: "gref option \<Rightarrow> shape \<Rightarrow> shape" where
  "addGraphics graphics s =
     (case graphics of
        None \<Rightarrow> s
      | Some g \<Rightarrow>
          (let s1 = (if s_masks s = None then s\<lparr>s_masks := Some []\<rparr> else s)
           in s1\<lparr>s_masks := Some (the (s_masks s1) @ [g])\<rparr>))"



text \<open>
  \<open>layout\<close>. The base layout is a parameter; invoking it is recorded in \<open>s_calls\<close>.
\<close>

definition Shape_layout ::
  "(renderer \<Rightarrow> oid \<Rightarrow> int \<Rightarrow> int \<Rightarrow> int \<Rightarrow> shape \<Rightarrow> int \<times> shape) \<Rightarrow>
   renderer \<Rightarrow> oid \<Rightarrow> int \<Rightarrow> int \<Rightarrow> int \<Rightarrow> shape \<Rightarrow> int \<times> shape" where
  "Shape_layout super renderer parent dirty time draw s =
     (case s_graphics s of
        None \<Rightarrow> (0, s)
      | Some g \<Rightarrow>
          (let s1 = (if gdirty (s_heap s g) then
                       (let s' = Shape_setDirty DIRTY_SHAPE s;
                            b = gbox (s_heap s' g)
                        in Shape_setBoundingBox (minX b) (minY b) (maxX b) (maxY b) s')
                     else s)
           in super renderer parent dirty time draw
                (s1\<lparr>s_calls := s_calls s1 @ [SuperLayout]\<rparr>)))"

definition Shape_isVisible :: "(shape \<Rightarrow> bool) \<Rightarrow> shape \<Rightarrow> bool" where
  "Shape_isVisible super s =
     (case s_graphics s of
        None \<Rightarrow> False
      | Some g \<Rightarrow> \<not> gempty (s_heap s g) \<and> super s)"

section \<open>The Bitmap leaf\<close>

text \<open>
  Rectangles are objects in a heap: the source region handed to \<open>setSourceRect\<close> is kept
  by reference, the load handler writes into it, and the nominal bounds are read through
  a reference as well. The heap is the list of the rectangles allocated so far, a
  reference is a position in it, and a new rectangle is appended, so that it is never
  an object that was already there. An image is the element with the size it reports
  when it is read.
\<close>

type_synonym rref = nat

record rectangle =
  rect_x :: rat
  rect_y :: rat
  rect_width :: rat
  rect_height :: rat

record image =
  img_id :: nat
  img_width :: int
  img_height :: int

text \<open>
  Modelled from the spec: the \<open>Composer\<close> (composer.js is not part of the file) owns the
  image that results from blending an alpha map into the source image; \<open>getOutput()\<close>
  returns it.
\<close>

record composer =
  cmp_output :: image

datatype bitmap_value = Url string | Element image

text \<open>Calls that a bitmap issues on objects it does not own.\<close>

datatype bitmap_call =
  ImageFactoryGet string
  | RemoveListeners image
  | RendererUncache renderer image
  | ComposerDestroy composer
  | DrawImage image rat rat

text \<open>
  What the collaborators answer: the image the factory holds for a path, a new composer,
  and the composer after an alpha map has been applied.
\<close>

record collaborators =
  ImageFactory_get :: "string \<Rightarrow> image"
  Composer_new :: composer
  Composer_applyAlphaMap :: "image option \<Rightarrow> image \<Rightarrow> composer \<Rightarrow> composer"

record bitmap =
  b_image :: "image option"
  b_ready :: bool
  b_source :: "rref option"
  b_nominalBounds :: "rref option"
  b_drawValues :: "float32 list option"
  b_composer :: "composer option"
  b_output :: "renderer option"
  b_hitTestPoint :: "point option"
  b_hitTestResult :: "oid option"
  b_box :: "rat box"
  b_alphaMapFilter :: "image option"
  b_rects :: "rectangle list"
  b_hitTestContext :: bool
  b_calls :: "bitmap_call list"

text \<open>
  Modelled from the spec: \<open>DisplayObject.setBoundingBox\<close> stores the box of the node.
\<close>

definition Bitmap_setBoundingBox :: "rat \<Rightarrow> rat \<Rightarrow> rat \<Rightarrow> rat \<Rightarrow> bitmap \<Rightarrow> bitmap" where
  "Bitmap_setBoundingBox x0 y0 x1 y1 b =
     b\<lparr>b_box := \<lparr>minX = x0, minY = y0, maxX = x1, maxY = y1\<rparr>\<rparr>"

text \<open>\<open>new createjs.Rectangle(x, y, width, height)\<close>: a new object at the end of the heap.\<close>

definition newRectangle :: "rat \<Rightarrow> rat \<Rightarrow> rat \<Rightarrow> rat \<Rightarrow> bitmap \<Rightarrow> rref \<times> bitmap" where
  "newRectangle x0 y0 w h b =
     (length (b_rects b),
      b\<lparr>b_rects := b_rects b @
             [\<lparr>rect_x = x0, rect_y = y0, rect_width = w, rect_height = h\<rparr>]\<rparr>)"

text \<open>
  \<open>createjs.cloneFloat32Array(values)\<close>: a \<open>Float32Array\<close> of the values, each rounded to
  single precision.
\<close>

definition cloneFloat32Array :: "rat list \<Rightarrow> float32 list" where
  "cloneFloat32Array values = map fround values"

text \<open>
  \<open>this.drawValues_[i] = v\<close>: the value is rounded to single precision; a typed array
  ignores a write beyond its length.
\<close>

definition setDrawValue :: "nat \<Rightarrow> rat \<Rightarrow> bitmap \<Rightarrow> bitmap" where
  "setDrawValue i v b =
     b\<lparr>b_drawValues := map_option (\<lambda>d. d[i := fround v]) (b_drawValues b)\<rparr>"

definition initializeBitmap :: "collaborators \<Rightarrow> bitmap_value \<Rightarrow> bitmap \<Rightarrow> bitmap" where
  "initializeBitmap env v b =
     (let (image, b1) =
            (case v of
               Url path \<Rightarrow>
                 (ImageFactory_get env path,
                  b\<lparr>b_image := Some (ImageFactory_get env path),
                    b_calls := b_calls b @ [ImageFactoryGet path]\<rparr>)
             | Element img \<Rightarrow> (img, b\<lparr>b_image := Some img\<rparr>));
          width = img_width image;
          height = img_height image;
          b2 = b1\<lparr>b_ready := (width \<noteq> 0)\<rparr>;
          b3 = (if b_source b2 = None then
                  (let (r, b') = newRectangle 0 0 (of_int width) (of_int height) b2
                   in b'\<lparr>b_source := Some r\<rparr>)
                else b2);
          source = b_rects b3 ! the (b_source b3);
          b4 = b3\<lparr>b_drawValues := Some (cloneFloat32Array
                 [rect_x source, rect_y source, rect_width source, rect_height source,
                  0, 0, of_int width, of_int height, 0, 0, 0, 0])\<rparr>;
          b5 = (case b_nominalBounds b4 of
                  None \<Rightarrow> b4
                | Some n \<Rightarrow>
                    (let nominalBounds = b_rects b4 ! n;
                         offsetX = toDouble (rect_width nominalBounds - of_int width);
                         bx = (if offsetX > 0
                               then setDrawValue 4 (of_int (sar1 offsetX)) b4 else b4);
                         offsetY = toDouble (rect_height nominalBounds - of_int height)
                     in if offsetY > 0
                        then setDrawValue 5 (of_int (sar1 offsetY)) bx else bx))
      in Bitmap_setBoundingBox 0 0 (of_int width) (of_int height) b5)"

text \<open>
  The constructor: \<open>b\<close> is the object as \<open>DisplayObject\<close> and the prototype leave it; a
  null argument leaves it uninitialized.
\<close>

definition Bitmap :: "collaborators \<Rightarrow> bitmap_value option \<Rightarrow> bitmap \<Rightarrow> bitmap" where
  "Bitmap env v b = (case v of None \<Rightarrow> b | Some v' \<Rightarrow> initializeBitmap env v' b)"

definition getComposer :: "collaborators \<Rightarrow> bitmap \<Rightarrow> composer \<times> bitmap" where
  "getComposer env b =
     (case b_composer b of
        None \<Rightarrow> (Composer_new env, b\<lparr>b_composer := Some (Composer_new env)\<rparr>)
      | Some c \<Rightarrow> (c, b))"

definition getSourceImage :: "bitmap \<Rightarrow> image option" where
  "getSourceImage b =
     (case b_composer b of
        Some c \<Rightarrow> Some (cmp_output c)
      | None \<Rightarrow> b_image b)"

definition getImage :: "bitmap \<Rightarrow> image option" where
  "getImage b = b_image b"

definition getSourceRect :: "bitmap \<Rightarrow> rref option" where
  "getSourceRect b = b_source b"

definition Bitmap_handleAttach :: "collaborators \<Rightarrow> int \<Rightarrow> bitmap \<Rightarrow> bitmap" where
  "Bitmap_handleAttach env flag b =
     (if flag = 0 \<or> \<not> b_ready b then b
      else case b_alphaMapFilter b of
             None \<Rightarrow> b
           | Some alpha \<Rightarrow>
               (let (c, b1) = getComposer env b
                in b1\<lparr>b_composer := Some (Composer_applyAlphaMap env (b_image b1) alpha c)\<rparr>))"

definition Bitmap_handleDetach :: "bitmap \<Rightarrow> bitmap" where
  "Bitmap_handleDetach b =
     (let b1 = (case getSourceImage b of
                  None \<Rightarrow> b
                | Some img \<Rightarrow>
                    (case b_output b of
                       None \<Rightarrow> b
                     | Some r \<Rightarrow>
                         b\<lparr>b_calls := b_calls b @ [RendererUncache r img],
                           b_output := None\<rparr>))
      in case b_composer b1 of
           Some c \<Rightarrow> b1\<lparr>b_calls := b_calls b1 @ [ComposerDestroy c], b_composer := None\<rparr>
         | None \<Rightarrow> b1)"

definition setImage :: "collaborators \<Rightarrow> image option \<Rightarrow> bitmap \<Rightarrow> bitmap" where
  "setImage env img b =
     (let b1 = Bitmap_handleDetach b;
          b2 = b1\<lparr>b_image := img\<rparr>;
          b3 = b2\<lparr>b_ready := (case img of None \<Rightarrow> False | Some i \<Rightarrow> img_width i \<noteq> 0)\<rparr>
      in Bitmap_handleAttach env 1 b3)"

text \<open>
  \<open>setSourceRect\<close>. Reading \<open>rectangle.width\<close> of a null argument raises a TypeError, and
  \<open>TypedArray.set\<close>, which rounds each value to single precision, raises a RangeError
  when the eight values do not fit in the buffer.
\<close>

definition setSourceRect :: "rref option \<Rightarrow> bitmap \<Rightarrow> error + bitmap" where
  "setSourceRect rectangle b =
     (case rectangle of
        None \<Rightarrow> Inl TypeError
      | Some r \<Rightarrow>
          (let rect = b_rects b ! r;
               width = rect_width rect;
               height = rect_height rect;
               b1 = Bitmap_setBoundingBox 0 0 width height b;
               b2 = (if b_drawValues b1 = None
                     then b1\<lparr>b_drawValues := Some (cloneFloat32Array [0, 0, 0, 0, 0, 0, 0, 0])\<rparr>
                     else b1);
               d = the (b_drawValues b2);
               vs = [rect_x rect, rect_y rect, rect_width rect, rect_height rect,
                     0, 0, width, height]
           in if length d < length vs then Inl RangeError
              else Inr (b2\<lparr>b_drawValues := Some (map fround vs @ drop (length vs) d),
                          b_source := Some r\<rparr>)))"

text \<open>
  \<open>handleEvent\<close>, the listener for the events of the image. An event carries its type and
  its target. Writing a slot of a buffer that was never allocated raises a TypeError.
\<close>

record event =
  ev_type :: string
  ev_target :: image

definition handleEvent :: "collaborators \<Rightarrow> event \<Rightarrow> bitmap \<Rightarrow> error + bitmap" where
  "handleEvent env ev b =
     (let image = ev_target ev;
          b1 = b\<lparr>b_calls := b_calls b @ [RemoveListeners image]\<rparr>;
          b2 = b1\<lparr>b_ready := (ev_type ev = ''load'')\<rparr>
      in if b_source b2 = None \<or> \<not> b_ready b2 then Inr (b2\<lparr>b_image := None\<rparr>)
         else
           (let width = img_width image;
                height = img_height image;
                source = the (b_source b2);
                b3 = b2\<lparr>b_rects := (b_rects b2)[source :=
                         (b_rects b2 ! source)\<lparr>rect_width := of_int width\<rparr>]\<rparr>;
                b4 = b3\<lparr>b_rects := (b_rects b3)[source :=
                         (b_rects b3 ! source)\<lparr>rect_height := of_int height\<rparr>]\<rparr>
            in if b_drawValues b4 = None then Inl TypeError
               else
                 (let b5 = setDrawValue 5 0 (setDrawValue 4 0
                             (setDrawValue 3 (of_int height) (setDrawValue 2 (of_int width)
                               (setDrawValue 1 0 (setDrawValue 0 0 b4)))));
                      b6 = (case b_nominalBounds b5 of
                              None \<Rightarrow> b5
                            | Some n \<Rightarrow>
                                (let nominalBounds = b_rects b5 ! n;
                                     offsetX = toDouble (rect_width nominalBounds - of_int width);
                                     bx = (if offsetX > 0
                                           then setDrawValue 4 (of_int (sar1 offsetX)) b5
                                           else b5);
                                     offsetY =
                                       toDouble (rect_height nominalBounds - of_int height)
                                 in if offsetY > 0
                                    then setDrawValue 5 (of_int (sar1 offsetY)) bx else bx));
                      b7 = setDrawValue 7 (of_int height) (setDrawValue 6 (of_int width) b6);
                      b8 = Bitmap_setBoundingBox 0 0 (of_int width) (of_int height) b7
                  in Inr (Bitmap_handleAttach env 1 b8))))"

definition Bitmap_removeAllChildren :: "bitmap \<Rightarrow> bitmap" where
  "Bitmap_removeAllChildren b =
     (Bitmap_handleDetach b)\<lparr>b_image := None, b_source := None, b_ready := False\<rparr>"


definition Bitmap_isVisible :: "(bitmap \<Rightarrow> bool) \<Rightarrow> bitmap \<Rightarrow> bool" where
  "Bitmap_isVisible super b = (b_ready b \<and> super b)"

section \<open>Predicates of the statements\<close>

text \<open>
  The buffer is only ever allocated with twelve slots (\<open>initializeBitmap_\<close>) or with
  eight (\<open>setSourceRect\<close> on a bitmap that has none), and no method resizes it.
\<close>

definition bufferInvariant :: "bitmap \<Rightarrow> bool" where
  "bufferInvariant b =
     (case b_drawValues b of None \<Rightarrow> True | Some d \<Rightarrow> length d = 8 \<or> length d = 12)"

text \<open>A reference held by the bitmap points to a rectangle of the heap.\<close>

definition validRefs :: "bitmap \<Rightarrow> bool" where
  "validRefs b =
     ((case b_nominalBounds b of None \<Rightarrow> True | Some n \<Rightarrow> n < length (b_rects b)) \<and>
      (case b_source b of None \<Rightarrow> True | Some r \<Rightarrow> r < length (b_rects b)))"

text \<open>
  The centering law in the words of the spec: the offset is
  \<open>floor((nominal - image) / 2)\<close> when the nominal dimension exceeds the image
  dimension, and 0 otherwise.
\<close>

definition spec_offset :: "rat \<Rightarrow> rat \<Rightarrow> int" where
  "spec_offset nominal actual =
     (if nominal > actual then \<lfloor>(nominal - actual) / 2\<rfloor> else 0)"

section \<open>Example objects\<close>

text \<open>
  A shape acting as a mask of the display object 7, with its own geometry at address 0
  and one dependent mask geometry at address 1; every geometry of the heap has the box
  (0, 0, 10, 10) and content left of x = 3.
\<close>

definition exampleGraphics :: graphics where
  "exampleGraphics =
     \<lparr>gbox = \<lparr>minX = 0, minY = 0, maxX = 10, maxY = 10\<rparr>, gdirty = False, gempty = False,
      ghit = (\<lambda>p. fst p < 3), gcached = False\<rparr>"

definition exampleShape :: shape where
  "exampleShape =
     \<lparr>s_graphics = Some 0, s_masks = Some [1], s_hitTestPoint = None, s_hitTestResult = None,
      s_box = \<lparr>minX = 0, minY = 0, maxX = 0, maxY = 0\<rparr>, s_dirty = {},
      s_owners = Some [7], s_compositionId = 1, s_heap = (\<lambda>g. exampleGraphics),
      s_calls = []\<rparr>"

text \<open>
  Collaborators for the examples: the factory holds images that are not loaded yet, and
  applying an alpha map gives an image of the size of the source image.
\<close>

definition exampleEnv :: collaborators where
  "exampleEnv =
     \<lparr>ImageFactory_get = (\<lambda>path. \<lparr>img_id = 0, img_width = 0, img_height = 0\<rparr>),
      Composer_new = \<lparr>cmp_output = \<lparr>img_id = 10, img_width = 0, img_height = 0\<rparr>\<rparr>,
      Composer_applyAlphaMap = (\<lambda>image alpha c.
        \<lparr>cmp_output = \<lparr>img_id = 11,
           img_width = (case image of None \<Rightarrow> 0 | Some i \<Rightarrow> img_width i),
           img_height = (case image of None \<Rightarrow> 0 | Some i \<Rightarrow> img_height i)\<rparr>\<rparr>)\<rparr>"

text \<open>
  The object as \<open>DisplayObject\<close> and the prototype leave it: every member null or false,
  no source region, no nominal bounds. The heap holds five rectangles: (0, 0, 100, 100)
  at address 0, (8, 4, 16, 16) at the addresses 1 and 2, (1/2, 3/4, 16, 16) at address 3
  and (0, 0, 16777217, 16) at address 4.
\<close>

definition blankBitmap :: bitmap where
  "blankBitmap =
     \<lparr>b_image = None, b_ready = False, b_source = None, b_nominalBounds = None,
      b_drawValues = None, b_composer = None, b_output = None, b_hitTestPoint = None,
      b_hitTestResult = None, b_box = \<lparr>minX = 0, minY = 0, maxX = 0, maxY = 0\<rparr>,
      b_alphaMapFilter = None,
      b_rects =
        [\<lparr>rect_x = 0, rect_y = 0, rect_width = 100, rect_height = 100\<rparr>,
         \<lparr>rect_x = 8, rect_y = 4, rect_width = 16, rect_height = 16\<rparr>,
         \<lparr>rect_x = 8, rect_y = 4, rect_width = 16, rect_height = 16\<rparr>,
         \<lparr>rect_x = 1 / 2, rect_y = 3 / 4, rect_width = 16, rect_height = 16\<rparr>,
         \<lparr>rect_x = 0, rect_y = 0, rect_width = 16777217, rect_height = 16\<rparr>],
      b_hitTestContext = False, b_calls = []\<rparr>"

definition image64x32 :: image where
  "image64x32 = \<lparr>img_id = 1, img_width = 64, img_height = 32\<rparr>"

text \<open>An image 16777217 pixels wide: the width has 25 significant bits.\<close>

definition imageWide :: image where
  "imageWide = \<lparr>img_id = 2, img_width = 16777217, img_height = 32\<rparr>"

text \<open>
  A bitmap constructed from the loaded 64 x 32 image in front of the nominal bounds
  (0, 0, 100, 100), and the same with nominal bounds 33554498 and 2147483712 wide: the
  differences to the image width are 33554434 and 2^31.
\<close>

definition centredBitmap :: bitmap where
  "centredBitmap =
     Bitmap exampleEnv (Some (Element image64x32)) (blankBitmap\<lparr>b_nominalBounds := Some 0\<rparr>)"

definition nominalBitmap :: "rat \<Rightarrow> bitmap" where
  "nominalBitmap nominalWidth =
     Bitmap exampleEnv (Some (Element image64x32))
       (blankBitmap\<lparr>b_nominalBounds := Some 0,
          b_rects := [\<lparr>rect_x = 0, rect_y = 0, rect_width = nominalWidth,
                       rect_height = 100\<rparr>]\<rparr>)"






section \<open>The Shape leaf: geometry replacement and layout\<close>

lemma markOwners_calls:
  "markOwners owners s =
     s\<lparr>s_calls := s_calls s @ map (\<lambda>ow. OwnerSetDirty ow DIRTY_MASK) owners\<rparr>"
  by (induction owners arbitrary: s) simp_all

lemma count_marks:
  "count_list (map (\<lambda>ow. OwnerSetDirty ow DIRTY_MASK) owners) (OwnerSetDirty ow DIRTY_MASK) =
   count_list owners ow"
  by (induction owners) auto

lemma count_list_distinct:
  "distinct xs \<Longrightarrow> x \<in> set xs \<Longrightarrow> count_list xs x = 1"
  by (induction xs) auto

text \<open>
  C5. A shape with a non-empty owners list and a non-zero composition id acts as a
  mask. Setting a non-null geometry on it replaces the owned geometry, makes the box of
  the new geometry the bounding box of the node, and issues one \<open>setDirty(DIRTY_MASK)\<close>
  on every entry of the owners list, in order, and nothing else: each owner of a list
  without repetitions is marked exactly once, and with exactly one owner exactly one
  such mark is issued, on that owner.
\<close>

theorem setGraphics_mask:
  "s_owners s = Some owners \<Longrightarrow> owners \<noteq> [] \<Longrightarrow> s_compositionId s \<noteq> 0 \<Longrightarrow>
   s_graphics (setGraphics (Some g) s) = Some g \<and>
   s_box (setGraphics (Some g) s) = gbox (s_heap s g) \<and>
   s_calls (setGraphics (Some g) s) =
     s_calls s @ map (\<lambda>ow. OwnerSetDirty ow DIRTY_MASK) owners \<and>
   (distinct owners \<longrightarrow>
      (\<forall>ow \<in> set owners.
         count_list (drop (length (s_calls s)) (s_calls (setGraphics (Some g) s)))
           (OwnerSetDirty ow DIRTY_MASK) = 1)) \<and>
   (\<forall>ow. owners = [ow] \<longrightarrow>
      s_calls (setGraphics (Some g) s) = s_calls s @ [OwnerSetDirty ow DIRTY_MASK])"
  by (simp add: setGraphics_def getOwners_def getCompositionId_def Let_def
      Shape_setBoundingBox_def markOwners_calls count_marks count_list_distinct)

theorem setGraphics_mask_witness:
  "s_owners exampleShape = Some [7] \<and> [7::nat] \<noteq> [] \<and> s_compositionId exampleShape \<noteq> 0 \<and>
   distinct [7::nat] \<and>
   s_graphics (setGraphics (Some 1) exampleShape) = Some 1 \<and>
   s_box (setGraphics (Some 1) exampleShape) = \<lparr>minX = 0, minY = 0, maxX = 10, maxY = 10\<rparr> \<and>
   s_calls (setGraphics (Some 1) exampleShape) = [OwnerSetDirty 7 DIRTY_MASK] \<and>
   count_list (s_calls (setGraphics (Some 1) exampleShape)) (OwnerSetDirty 7 DIRTY_MASK) = 1"
proof -
  have h: "s_owners exampleShape = Some [7]" "[7::nat] \<noteq> []"
    "s_compositionId exampleShape \<noteq> 0"
    by (simp_all add: exampleShape_def)
  from setGraphics_mask [OF h, of 1] h show ?thesis
    by (simp add: exampleShape_def exampleGraphics_def)
qed

text \<open>
  C8, as the code has it. The guard of \<open>setGraphics\<close> is \<open>if (!owners) return\<close>, and an
  empty array is not falsy: the call is a no-op on a shape whose owners list is absent,
  and on a shape whose owners list is empty only while the composition id is zero. Then
  the state is left as it was: geometry, bounding box, and no mark issued on any owner.
\<close>

theorem setGraphics_without_owners:
  "s_owners s = None \<or> (s_owners s = Some [] \<and> s_compositionId s = 0) \<Longrightarrow>
   setGraphics graphics s = s"
  by (auto simp add: setGraphics_def getOwners_def getCompositionId_def)

theorem setGraphics_without_owners_witness:
  "s_owners (exampleShape\<lparr>s_owners := None\<rparr>) = None \<and>
   setGraphics (Some 1) (exampleShape\<lparr>s_owners := None\<rparr>) = exampleShape\<lparr>s_owners := None\<rparr> \<and>
   s_owners (exampleShape\<lparr>s_owners := Some [], s_compositionId := 0\<rparr>) = Some [] \<and>
   s_compositionId (exampleShape\<lparr>s_owners := Some [], s_compositionId := 0\<rparr>) = 0 \<and>
   setGraphics (Some 1) (exampleShape\<lparr>s_owners := Some [], s_compositionId := 0\<rparr>) =
     exampleShape\<lparr>s_owners := Some [], s_compositionId := 0\<rparr>"
  using setGraphics_without_owners [of "exampleShape\<lparr>s_owners := None\<rparr>" "Some 1"]
    setGraphics_without_owners
      [of "exampleShape\<lparr>s_owners := Some [], s_compositionId := 0\<rparr>" "Some 1"]
  by simp

text \<open>
  C8 as stated fails: on a mask shape (composition id 1) whose owners list is present
  and empty, \<open>setGraphics\<close> replaces the geometry 0 by the geometry 1 and moves the
  bounding box from (0, 0, 0, 0) to (0, 0, 10, 10).
\<close>

theorem setGraphics_empty_owners_counterexample:
  "s_owners (exampleShape\<lparr>s_owners := Some []\<rparr>) = Some [] \<and>
   s_graphics (exampleShape\<lparr>s_owners := Some []\<rparr>) = Some 0 \<and>
   s_graphics (setGraphics (Some 1) (exampleShape\<lparr>s_owners := Some []\<rparr>)) = Some 1 \<and>
   s_box (exampleShape\<lparr>s_owners := Some []\<rparr>) = \<lparr>minX = 0, minY = 0, maxX = 0, maxY = 0\<rparr> \<and>
   s_box (setGraphics (Some 1) (exampleShape\<lparr>s_owners := Some []\<rparr>)) =
     \<lparr>minX = 0, minY = 0, maxX = 10, maxY = 10\<rparr>"
  by (simp add: setGraphics_def getOwners_def getCompositionId_def exampleShape_def
      exampleGraphics_def Shape_setBoundingBox_def Let_def)

text \<open>
  C10. On a shape whose geometry is absent, \<open>layout\<close> returns 0 and leaves the whole
  state as it was, whatever the base layout would do: the base layout is not invoked
  (no call is recorded), and neither the dirty mask nor the bounding box changes.
\<close>

theorem layout_without_graphics:
  "s_graphics s = None \<Longrightarrow> Shape_layout super renderer parent dirty time draw s = (0, s)"
  by (simp add: Shape_layout_def)

theorem layout_without_graphics_witness:
  "s_graphics (Shape_handleDetach exampleShape) = None \<and>
   Shape_layout (\<lambda>r p d t dr s. (d + 1, Shape_setDirty DIRTY_SHAPE s)) 0 0 5 0 1
     (Shape_handleDetach exampleShape) = (0, Shape_handleDetach exampleShape)"
proof -
  have g: "s_graphics (Shape_handleDetach exampleShape) = None"
    by (simp add: Shape_handleDetach_def exampleShape_def Graphics_uncache_def)
  from layout_without_graphics [OF g] g show ?thesis by simp
qed

section \<open>The Bitmap leaf: image events\<close>

text \<open>
  C7. On an image event whose type is not "load", the bitmap removes itself from the
  listeners of the image with one call, and the handler returns normally with the ready
  flag false and the image reference null, so that \<open>isVisible()\<close> is false whatever the
  base visibility. This holds in every state, in particular before the bitmap ever
  became ready.
\<close>

theorem handleEvent_not_load:
  "ev_type ev \<noteq> ''load'' \<Longrightarrow>
   (\<exists>b'. handleEvent env ev b = Inr b' \<and>
      b_calls b' = b_calls b @ [RemoveListeners (ev_target ev)] \<and>
      \<not> b_ready b' \<and> getImage b' = None \<and> \<not> Bitmap_isVisible super b')"
  by (simp add: handleEvent_def Let_def getImage_def Bitmap_isVisible_def)

theorem handleEvent_not_load_witness:
  "''error'' \<noteq> ''load'' \<and>
   (\<exists>b'. handleEvent exampleEnv
            \<lparr>ev_type = ''error'', ev_target = \<lparr>img_id = 0, img_width = 0, img_height = 0\<rparr>\<rparr>
            (Bitmap exampleEnv (Some (Url ''a.png'')) blankBitmap) = Inr b' \<and>
      b_calls b' =
        [ImageFactoryGet ''a.png'',
         RemoveListeners \<lparr>img_id = 0, img_width = 0, img_height = 0\<rparr>] \<and>
      \<not> b_ready b' \<and> getImage b' = None \<and> \<not> Bitmap_isVisible (\<lambda>b. True) b')"
proof -
  have h: "ev_type \<lparr>ev_type = ''error'',
      ev_target = \<lparr>img_id = 0, img_width = 0, img_height = 0\<rparr>\<rparr> \<noteq> ''load''"
    by simp
  have c: "b_calls (Bitmap exampleEnv (Some (Url ''a.png'')) blankBitmap) =
      [ImageFactoryGet ''a.png'']"
    by (simp add: Bitmap_def initializeBitmap_def blankBitmap_def exampleEnv_def Let_def
        newRectangle_def Bitmap_setBoundingBox_def)
  from handleEvent_not_load
    [OF h, of exampleEnv "Bitmap exampleEnv (Some (Url ''a.png'')) blankBitmap" "\<lambda>b. True"] c
  show ?thesis by simp
qed

section \<open>Single and double precision\<close>

text \<open>
  \<open>floorlog2\<close> is the binary exponent of a positive number, integers of magnitude below
  \<open>2^p\<close> are fixed points of the rounding to \<open>p\<close> bits, and rounding keeps the sign.
\<close>

lemma bitlen_1: "bitlen 1 = 1"
  by (subst compute_bitlen) simp

lemma roundHalfEven_of_int: "roundHalfEven (of_int m) = m"
  by (simp add: roundHalfEven_def)

lemma roundHalfEven_nonneg: "0 \<le> s \<Longrightarrow> 0 \<le> roundHalfEven s"
  by (simp add: roundHalfEven_def Let_def)

lemma floorlog2_of_int_le: "0 < n \<Longrightarrow> floorlog2 (of_int n) \<le> bitlen n - 1"
  by (simp add: floorlog2_def Let_def bitlen_1)

lemma roundBinary_of_int:
  assumes "\<bar>n\<bar> < 2 ^ p" "emin \<le> 0"
  shows "roundBinary p emin (of_int n) = of_int n"
proof (cases "n = 0")
  case True
  then show ?thesis by (simp add: roundBinary_def)
next
  case False
  define a where "a = \<bar>n\<bar>"
  have a: "0 < a" "a < 2 ^ p" using False assms by (simp_all add: a_def)
  define e where "e = max (floorlog2 (of_int a) - (int p - 1)) emin"
  have "bitlen a \<le> int p" using a by (simp add: bitlen_le_iff_power)
  with floorlog2_of_int_le [OF a(1)] have "floorlog2 (of_int a) - (int p - 1) \<le> 0" by simp
  with assms have e: "e \<le> 0" by (simp add: e_def)
  have s: "(of_int a :: rat) / 2 powi e = of_int (a * 2 ^ nat (- e))"
    using e by (simp add: power_int_def field_simps)
  have "roundBinary p emin (of_int n) =
      sgn (of_int n) * of_int (roundHalfEven (\<bar>of_int n\<bar> / 2 powi e)) * 2 powi e"
    using False by (simp add: roundBinary_def Let_def e_def a_def)
  also have "\<bar>of_int n :: rat\<bar> = of_int a" by (simp add: a_def)
  also have "roundHalfEven (of_int a / 2 powi e) = a * 2 ^ nat (- e)"
    by (simp only: s roundHalfEven_of_int)
  also have "sgn (of_int n :: rat) * of_int (a * 2 ^ nat (- e)) * 2 powi e = of_int n"
    using e by (simp add: power_int_def a_def field_simps sgn_if)
  finally show ?thesis .
qed

lemma roundBinary_sign:
  "q \<le> 0 \<Longrightarrow> roundBinary p emin q \<le> 0"
  "0 \<le> q \<Longrightarrow> 0 \<le> roundBinary p emin q"
proof -
  have m: "0 \<le> (of_int (roundHalfEven (\<bar>q\<bar> / 2 powi e)) :: rat) * 2 powi e" for e
    by (intro mult_nonneg_nonneg) (simp_all add: roundHalfEven_nonneg)
  show "q \<le> 0 \<Longrightarrow> roundBinary p emin q \<le> 0"
    using m by (simp add: roundBinary_def Let_def sgn_if mult.assoc)
  show "0 \<le> q \<Longrightarrow> 0 \<le> roundBinary p emin q"
    using m by (simp add: roundBinary_def Let_def sgn_if mult.assoc)
qed

lemma fround_of_int: "\<bar>n\<bar> < 2 ^ 24 \<Longrightarrow> fround (of_int n) = Finite (of_int n)"
proof -
  assume n: "\<bar>n\<bar> < 2 ^ 24"
  then have r: "roundBinary 24 (- 149) (of_int n) = of_int n"
    by (intro roundBinary_of_int) simp_all
  from n have "\<bar>of_int n :: rat\<bar> < 2 ^ 24"
    by (simp flip: of_int_abs)
  also have "(2 :: rat) ^ 24 < 2 ^ 128"
    by (rule power_strict_increasing) simp_all
  finally have "\<bar>of_int n :: rat\<bar> < 2 ^ 128" .
  then have "\<not> (of_int n :: rat) \<ge> 2 ^ 128" "\<not> (of_int n :: rat) \<le> - (2 ^ 128)"
    by (simp_all only: abs_less_iff not_le) linarith+
  then show ?thesis by (simp only: fround_def r Let_def if_False)
qed

lemma toDouble_of_int: "\<bar>n\<bar> < 2 ^ 53 \<Longrightarrow> toDouble (of_int n) = of_int n"
  by (simp add: toDouble_def roundBinary_of_int)

lemma fround_0: "fround 0 = Finite 0"
  by (simp add: fround_def roundBinary_def)

lemma fround_numeral:
  "numeral w < (16777216 :: int) \<Longrightarrow> fround (numeral w) = Finite (numeral w)"
  using fround_of_int [of "numeral w"] by simp

lemma fround_16777217: "fround 16777217 = Finite 16777216"
  by code_simp

lemma fround_neg_pow30: "fround (- 1073741824) = Finite (- 1073741824)"
  by code_simp

lemma fround_fractions: "fround (1 / 2) = Finite (1 / 2)" "fround (3 / 4) = Finite (3 / 4)"
  by code_simp+

lemma toDouble_sign:
  "q \<le> 0 \<Longrightarrow> toDouble q \<le> 0" "0 \<le> q \<Longrightarrow> 0 \<le> toDouble q"
  by (simp_all add: toDouble_def roundBinary_sign)

lemma ToInt32_id: "- (2 ^ 31) \<le> n \<Longrightarrow> n < 2 ^ 31 \<Longrightarrow> ToInt32 n = n"
  by (simp add: ToInt32_def)

lemma floor_half: "\<lfloor>q / 2 :: rat\<rfloor> = \<lfloor>q\<rfloor> div 2"
proof (rule floor_unique)
  define f where "f = \<lfloor>q\<rfloor>"
  have f: "of_int f \<le> q" "q < of_int f + 1"
    using floor_correct [of q] by (simp_all add: f_def)
  have "2 * (f div 2) \<le> f" "f + 1 \<le> 2 * (f div 2) + 2"
    by presburger+
  then have k: "(of_int (2 * (f div 2)) :: rat) \<le> of_int f"
    "(of_int (f + 1) :: rat) \<le> of_int (2 * (f div 2) + 2)"
    by (simp_all only: of_int_le_iff)
  from k(1) f(1) show "of_int (\<lfloor>q\<rfloor> div 2) \<le> q / 2"
    unfolding f_def by simp linarith
  from k(2) f(2) show "q / 2 < of_int (\<lfloor>q\<rfloor> div 2) + 1"
    unfolding f_def by simp
qed

lemma sar1_floor:
  assumes "0 \<le> q" "q < 2 ^ 31"
  shows "sar1 q = \<lfloor>q / 2\<rfloor>"
proof -
  have "0 \<le> \<lfloor>q\<rfloor>" using assms(1) by simp
  moreover have "\<lfloor>q\<rfloor> < 2 ^ 31" using assms(2) by (simp add: floor_less_iff)
  ultimately have "ToInt32 \<lfloor>q\<rfloor> = \<lfloor>q\<rfloor>" by (intro ToInt32_id) simp_all
  with assms(1) show ?thesis by (simp add: sar1_def truncInt_def floor_half)
qed

lemma sar1_bound:
  assumes "0 \<le> q" "q < 2 ^ 25"
  shows "\<bar>sar1 q\<bar> < 2 ^ 24"
proof -
  from assms have "q < 2 ^ 31" by simp
  with assms have s: "sar1 q = \<lfloor>q / 2\<rfloor>" by (intro sar1_floor)
  have "0 \<le> \<lfloor>q / 2\<rfloor>" using assms(1) by simp
  moreover have "\<lfloor>q / 2\<rfloor> < 2 ^ 24" using assms(2) by (simp add: floor_less_iff)
  ultimately show ?thesis by (simp add: s)
qed

lemma bitlen_powi_bounds:
  assumes "0 < (n :: int)"
  shows "(2 :: rat) powi (bitlen n - 1) \<le> of_int n" "(of_int n :: rat) < 2 powi bitlen n"
proof -
  from assms bitlen_nonneg [of n] bitlen_eq_zero_iff [of n] have b: "0 < bitlen n" by arith
  from bitlen_bounds [OF assms]
  have l: "2 ^ nat (bitlen n - 1) \<le> n" and u: "n < 2 ^ nat (bitlen n)" by simp_all
  from l have "(of_int (2 ^ nat (bitlen n - 1)) :: rat) \<le> of_int n"
    by (simp only: of_int_le_iff)
  with b show "(2 :: rat) powi (bitlen n - 1) \<le> of_int n"
    by (simp add: power_int_def)
  from u have "(of_int n :: rat) < of_int (2 ^ nat (bitlen n))"
    by (simp only: of_int_less_iff)
  with b show "(of_int n :: rat) < 2 powi bitlen n"
    by (simp add: power_int_def)
qed

lemma floorlog2_bounds:
  assumes "0 < a"
  shows "2 powi floorlog2 a \<le> a \<and> a < 2 powi (floorlog2 a + 1)"
proof -
  obtain n d where q: "quotient_of a = (n, d)" by (cases "quotient_of a")
  then have d: "0 < d" and a: "a = of_int n / of_int d"
    by (simp_all add: quotient_of_denom_pos quotient_of_div)
  from assms a d have n: "0 < n" by (simp add: zero_less_divide_iff)
  define k where "k = bitlen n - bitlen d"
  have dpos: "(0 :: rat) < of_int d" using d by simp
  have up: "a < 2 powi (k + 1)"
  proof -
    have "a * of_int d = of_int n" using a dpos by simp
    also have "\<dots> < 2 powi bitlen n" by (rule bitlen_powi_bounds(2) [OF n])
    also have "\<dots> = 2 powi (k + 1) * 2 powi (bitlen d - 1)"
      by (simp add: k_def power_int_add [symmetric])
    also have "\<dots> \<le> 2 powi (k + 1) * of_int d"
      using bitlen_powi_bounds(1) [OF d] by (intro mult_left_mono) simp_all
    finally show ?thesis using dpos by simp
  qed
  have low: "2 powi (k - 1) \<le> a"
  proof -
    have "(2 :: rat) powi (k - 1) * of_int d \<le> 2 powi (k - 1) * 2 powi bitlen d"
      using less_imp_le [OF bitlen_powi_bounds(2) [OF d]] by (intro mult_left_mono) simp_all
    also have "\<dots> = 2 powi (bitlen n - 1)"
      by (simp add: k_def power_int_add [symmetric])
    also have "\<dots> \<le> of_int n" by (rule bitlen_powi_bounds(1) [OF n])
    also have "\<dots> = a * of_int d" using a dpos by simp
    finally show ?thesis using dpos by simp
  qed
  show ?thesis
  proof (cases "2 powi k \<le> a")
    case True
    with q have "floorlog2 a = k" by (simp add: floorlog2_def k_def Let_def)
    with True up show ?thesis by simp
  next
    case False
    with q have "floorlog2 a = k - 1" by (simp add: floorlog2_def k_def Let_def)
    with False low show ?thesis by simp
  qed
qed

lemma toDouble_0: "toDouble 0 = 0"
  by (simp add: toDouble_def roundBinary_def)

lemma toDouble_numeral:
  "numeral w < (9007199254740992 :: int) \<Longrightarrow> toDouble (numeral w) = numeral w"
  using toDouble_of_int [of "numeral w"] by simp

lemma toDouble_neg_numeral:
  "numeral w < (9007199254740992 :: int) \<Longrightarrow> toDouble (- numeral w) = - numeral w"
  using toDouble_of_int [of "- numeral w"] by simp

lemmas float_eval = fround_0 fround_numeral fround_16777217 fround_neg_pow30 fround_fractions
  toDouble_0 toDouble_numeral toDouble_neg_numeral

section \<open>The Bitmap leaf: initialization, source region and draw parameters\<close>

lemma Bitmap_handleAttach_frame:
  "b_drawValues (Bitmap_handleAttach env flag b) = b_drawValues b"
  "b_rects (Bitmap_handleAttach env flag b) = b_rects b"
  "b_box (Bitmap_handleAttach env flag b) = b_box b"
  "b_source (Bitmap_handleAttach env flag b) = b_source b"
  "b_nominalBounds (Bitmap_handleAttach env flag b) = b_nominalBounds b"
  "b_image (Bitmap_handleAttach env flag b) = b_image b"
  "b_ready (Bitmap_handleAttach env flag b) = b_ready b"
  "b_output (Bitmap_handleAttach env flag b) = b_output b"
  "b_calls (Bitmap_handleAttach env flag b) = b_calls b"
  by (simp_all add: Bitmap_handleAttach_def getComposer_def Let_def
      split: option.splits prod.splits)

lemma Bitmap_handleDetach_frame:
  "b_drawValues (Bitmap_handleDetach b) = b_drawValues b"
  "b_rects (Bitmap_handleDetach b) = b_rects b"
  "b_box (Bitmap_handleDetach b) = b_box b"
  "b_source (Bitmap_handleDetach b) = b_source b"
  "b_nominalBounds (Bitmap_handleDetach b) = b_nominalBounds b"
  "b_image (Bitmap_handleDetach b) = b_image b"
  "b_ready (Bitmap_handleDetach b) = b_ready b"
  by (simp_all add: Bitmap_handleDetach_def Let_def split: option.splits)

lemma initializeBitmap_eq:
  "validRefs b \<Longrightarrow>
   initializeBitmap env v b =
     (let image = (case v of Url path \<Rightarrow> ImageFactory_get env path | Element img \<Rightarrow> img);
          w = img_width image;
          h = img_height image;
          r = (case b_source b of None \<Rightarrow> length (b_rects b) | Some r0 \<Rightarrow> r0);
          rects = (case b_source b of
                     None \<Rightarrow> b_rects b @
                       [\<lparr>rect_x = 0, rect_y = 0, rect_width = of_int w, rect_height = of_int h\<rparr>]
                   | Some r0 \<Rightarrow> b_rects b);
          dx = (case b_nominalBounds b of
                  None \<Rightarrow> 0
                | Some n \<Rightarrow> toDouble (rect_width (b_rects b ! n) - of_int w));
          dy = (case b_nominalBounds b of
                  None \<Rightarrow> 0
                | Some n \<Rightarrow> toDouble (rect_height (b_rects b ! n) - of_int h))
      in b\<lparr>b_image := Some image,
           b_calls := (case v of Url path \<Rightarrow> b_calls b @ [ImageFactoryGet path]
                       | Element img \<Rightarrow> b_calls b),
           b_ready := (w \<noteq> 0),
           b_rects := rects,
           b_source := Some r,
           b_drawValues := Some
             [fround (rect_x (rects ! r)), fround (rect_y (rects ! r)),
              fround (rect_width (rects ! r)), fround (rect_height (rects ! r)),
              (if dx > 0 then fround (of_int (sar1 dx)) else Finite 0),
              (if dy > 0 then fround (of_int (sar1 dy)) else Finite 0),
              fround (of_int w), fround (of_int h),
              Finite 0, Finite 0, Finite 0, Finite 0],
           b_box := \<lparr>minX = 0, minY = 0, maxX = of_int w, maxY = of_int h\<rparr>\<rparr>)"
  by (cases v; cases "b_source b"; cases "b_nominalBounds b")
     (simp_all add: initializeBitmap_def validRefs_def Let_def newRectangle_def setDrawValue_def
       cloneFloat32Array_def Bitmap_setBoundingBox_def fround_0 nth_append)

lemma sar1_pos: "0 < q \<Longrightarrow> sar1 q = ((\<lfloor>q\<rfloor> + 2 ^ 31) mod 2 ^ 32 - 2 ^ 31) div 2"
  by (simp add: sar1_def truncInt_def ToInt32_def)

text \<open>
  C1, with the rounding of the buffer. On a bitmap whose references point into the heap,
  \<open>initializeBitmap_\<close> stores the image, sets the ready flag when the width is not 0,
  keeps the source region that was there or allocates a new rectangle
  (0, 0, image.width, image.height), sets the bounding box to
  (0, 0, image.width, image.height) and allocates the buffer
  [source.x, source.y, source.width, source.height, offsetX, offsetY, image.width,
  image.height, 0, 0, 0, 0], each value rounded to single precision; nothing else changes.
  The offsets come from the nominal bounds as they are before the call: the difference
  as a double, shifted by one bit on its signed 32-bit value when it is positive, and 0
  otherwise or without nominal bounds. Without source region and nominal bounds and for
  an image whose sizes are below 2^24 in magnitude the buffer holds the exact values
  [0, 0, width, height, 0, 0, width, height, 0, 0, 0, 0]. In particular the
  constructor, given a 64 x 32 image on an object without source region and nominal
  bounds, yields a ready bitmap with source region (0, 0, 64, 32), bounding box
  (0, 0, 64, 32) and buffer [0, 0, 64, 32, 0, 0, 64, 32, 0, 0, 0, 0].
\<close>

theorem initializeBitmap_result:
  "validRefs b \<Longrightarrow>
   (let image = (case v of Url path \<Rightarrow> ImageFactory_get env path | Element img \<Rightarrow> img);
        w = img_width image;
        h = img_height image;
        r = (case b_source b of None \<Rightarrow> length (b_rects b) | Some r0 \<Rightarrow> r0);
        rects = (case b_source b of
                   None \<Rightarrow> b_rects b @
                     [\<lparr>rect_x = 0, rect_y = 0, rect_width = of_int w, rect_height = of_int h\<rparr>]
                 | Some r0 \<Rightarrow> b_rects b);
        dx = (case b_nominalBounds b of
                None \<Rightarrow> 0
              | Some n \<Rightarrow> toDouble (rect_width (b_rects b ! n) - of_int w));
        dy = (case b_nominalBounds b of
                None \<Rightarrow> 0
              | Some n \<Rightarrow> toDouble (rect_height (b_rects b ! n) - of_int h))
    in initializeBitmap env v b =
         b\<lparr>b_image := Some image,
           b_calls := (case v of Url path \<Rightarrow> b_calls b @ [ImageFactoryGet path]
                       | Element img \<Rightarrow> b_calls b),
           b_ready := (w \<noteq> 0),
           b_rects := rects,
           b_source := Some r,
           b_drawValues := Some
             [fround (rect_x (rects ! r)), fround (rect_y (rects ! r)),
              fround (rect_width (rects ! r)), fround (rect_height (rects ! r)),
              (if dx > 0
               then fround (of_int (((\<lfloor>dx\<rfloor> + 2 ^ 31) mod 2 ^ 32 - 2 ^ 31) div 2))
               else Finite 0),
              (if dy > 0
               then fround (of_int (((\<lfloor>dy\<rfloor> + 2 ^ 31) mod 2 ^ 32 - 2 ^ 31) div 2))
               else Finite 0),
              fround (of_int w), fround (of_int h),
              Finite 0, Finite 0, Finite 0, Finite 0],
           b_box := \<lparr>minX = 0, minY = 0, maxX = of_int w, maxY = of_int h\<rparr>\<rparr> \<and>
       (b_source b = None \<and> b_nominalBounds b = None \<and> \<bar>w\<bar> < 2 ^ 24 \<and> \<bar>h\<bar> < 2 ^ 24 \<longrightarrow>
          b_drawValues (initializeBitmap env v b) = Some
            [Finite 0, Finite 0, Finite (of_int w), Finite (of_int h), Finite 0, Finite 0,
             Finite (of_int w), Finite (of_int h), Finite 0, Finite 0, Finite 0, Finite 0])) \<and>
   (b_source b = None \<and> b_nominalBounds b = None \<longrightarrow>
      (let b' = Bitmap env (Some (Element \<lparr>img_id = i, img_width = 64, img_height = 32\<rparr>)) b
       in b_ready b' \<and>
          getSourceRect b' = Some (length (b_rects b)) \<and>
          b_rects b' ! length (b_rects b) =
            \<lparr>rect_x = 0, rect_y = 0, rect_width = 64, rect_height = 32\<rparr> \<and>
          b_drawValues b' = Some
            [Finite 0, Finite 0, Finite 64, Finite 32, Finite 0, Finite 0,
             Finite 64, Finite 32, Finite 0, Finite 0, Finite 0, Finite 0] \<and>
          b_box b' = \<lparr>minX = 0, minY = 0, maxX = 64, maxY = 32\<rparr>))"
proof -
  assume v: "validRefs b"
  note eq = initializeBitmap_eq [OF v, of env, unfolded Let_def]
  show ?thesis
    unfolding Let_def
    apply (intro conjI impI)
    subgoal by (subst eq) (simp add: sar1_pos)
    subgoal by (subst eq) (simp add: fround_of_int fround_0)
    subgoal by (simp add: Bitmap_def eq)
    subgoal by (simp add: Bitmap_def eq getSourceRect_def)
    subgoal by (simp add: Bitmap_def eq)
    subgoal by (simp add: Bitmap_def eq fround_numeral fround_0)
    subgoal by (simp add: Bitmap_def eq)
    done
qed

lemma validRefs_blank:
  "validRefs blankBitmap" "validRefs (blankBitmap\<lparr>b_nominalBounds := Some 0\<rparr>)"
  "validRefs (blankBitmap\<lparr>b_source := Some 3, b_nominalBounds := Some 0\<rparr>)"
  by (simp_all add: validRefs_def blankBitmap_def)

lemma centredBitmap_eq:
  "centredBitmap =
     blankBitmap\<lparr>b_image := Some image64x32, b_ready := True,
       b_rects := b_rects blankBitmap @
         [\<lparr>rect_x = 0, rect_y = 0, rect_width = 64, rect_height = 32\<rparr>],
       b_source := Some 5, b_nominalBounds := Some 0,
       b_drawValues := Some
         [Finite 0, Finite 0, Finite 64, Finite 32, Finite 18, Finite 34, Finite 64, Finite 32,
          Finite 0, Finite 0, Finite 0, Finite 0],
       b_box := \<lparr>minX = 0, minY = 0, maxX = 64, maxY = 32\<rparr>\<rparr>"
  unfolding centredBitmap_def Bitmap_def option.case
  by (subst initializeBitmap_eq [OF validRefs_blank(2)])
     (simp add: Let_def blankBitmap_def image64x32_def float_eval sar1_def truncInt_def
       ToInt32_def)

lemma centredBitmap_eval:
  "b_drawValues centredBitmap = Some
     [Finite 0, Finite 0, Finite 64, Finite 32, Finite 18, Finite 34, Finite 64, Finite 32,
      Finite 0, Finite 0, Finite 0, Finite 0]"
  "b_source centredBitmap = Some 5"
  "b_nominalBounds centredBitmap = Some 0"
  "b_rects centredBitmap =
     [\<lparr>rect_x = 0, rect_y = 0, rect_width = 100, rect_height = 100\<rparr>,
      \<lparr>rect_x = 8, rect_y = 4, rect_width = 16, rect_height = 16\<rparr>,
      \<lparr>rect_x = 8, rect_y = 4, rect_width = 16, rect_height = 16\<rparr>,
      \<lparr>rect_x = 1 / 2, rect_y = 3 / 4, rect_width = 16, rect_height = 16\<rparr>,
      \<lparr>rect_x = 0, rect_y = 0, rect_width = 16777217, rect_height = 16\<rparr>,
      \<lparr>rect_x = 0, rect_y = 0, rect_width = 64, rect_height = 32\<rparr>]"
  "b_box centredBitmap = \<lparr>minX = 0, minY = 0, maxX = 64, maxY = 32\<rparr>"
  "b_image centredBitmap = Some image64x32"
  "b_ready centredBitmap"
  "b_alphaMapFilter centredBitmap = None"
  "b_composer centredBitmap = None"
  "b_output centredBitmap = None"
  "b_calls centredBitmap = []"
  "b_hitTestPoint centredBitmap = None"
  "b_hitTestResult centredBitmap = None"
  "b_hitTestContext centredBitmap = False"
  by (simp_all add: centredBitmap_eq blankBitmap_def)

lemma bufferInvariant_centredBitmap: "bufferInvariant centredBitmap"
  by (simp add: bufferInvariant_def centredBitmap_eval)

theorem initializeBitmap_result_witness:
  "validRefs blankBitmap \<and> b_source blankBitmap = None \<and> b_nominalBounds blankBitmap = None \<and>
   b_ready (Bitmap exampleEnv (Some (Element image64x32)) blankBitmap) \<and>
   getSourceRect (Bitmap exampleEnv (Some (Element image64x32)) blankBitmap) = Some 5 \<and>
   b_rects (Bitmap exampleEnv (Some (Element image64x32)) blankBitmap) ! 5 =
     \<lparr>rect_x = 0, rect_y = 0, rect_width = 64, rect_height = 32\<rparr> \<and>
   b_drawValues (Bitmap exampleEnv (Some (Element image64x32)) blankBitmap) =
     Some [Finite 0, Finite 0, Finite 64, Finite 32, Finite 0, Finite 0, Finite 64, Finite 32,
           Finite 0, Finite 0, Finite 0, Finite 0] \<and>
   b_box (Bitmap exampleEnv (Some (Element image64x32)) blankBitmap) =
     \<lparr>minX = 0, minY = 0, maxX = 64, maxY = 32\<rparr> \<and>
   validRefs (blankBitmap\<lparr>b_source := Some 3, b_nominalBounds := Some 0\<rparr>) \<and>
   getSourceRect (initializeBitmap exampleEnv (Element image64x32)
      (blankBitmap\<lparr>b_source := Some 3, b_nominalBounds := Some 0\<rparr>)) = Some 3 \<and>
   b_drawValues (initializeBitmap exampleEnv (Element image64x32)
      (blankBitmap\<lparr>b_source := Some 3, b_nominalBounds := Some 0\<rparr>)) =
     Some [Finite (1 / 2), Finite (3 / 4), Finite 16, Finite 16, Finite 18, Finite 34,
           Finite 64, Finite 32, Finite 0, Finite 0, Finite 0, Finite 0]"
proof -
  have len: "length (b_rects blankBitmap) = 5" by (simp add: blankBitmap_def)
  have n: "b_source blankBitmap = None" "b_nominalBounds blankBitmap = None"
    by (simp_all add: blankBitmap_def)
  from initializeBitmap_result
    [OF validRefs_blank(1), where v = "Element image64x32" and env = exampleEnv and i = 1] n
  have first: "b_ready (Bitmap exampleEnv (Some (Element image64x32)) blankBitmap) \<and>
   getSourceRect (Bitmap exampleEnv (Some (Element image64x32)) blankBitmap) = Some 5 \<and>
   b_rects (Bitmap exampleEnv (Some (Element image64x32)) blankBitmap) ! 5 =
     \<lparr>rect_x = 0, rect_y = 0, rect_width = 64, rect_height = 32\<rparr> \<and>
   b_drawValues (Bitmap exampleEnv (Some (Element image64x32)) blankBitmap) =
     Some [Finite 0, Finite 0, Finite 64, Finite 32, Finite 0, Finite 0, Finite 64, Finite 32,
           Finite 0, Finite 0, Finite 0, Finite 0] \<and>
   b_box (Bitmap exampleEnv (Some (Element image64x32)) blankBitmap) =
     \<lparr>minX = 0, minY = 0, maxX = 64, maxY = 32\<rparr>"
    by (simp add: Let_def len image64x32_def)
  from initializeBitmap_result
    [OF validRefs_blank(3), where v = "Element image64x32" and env = exampleEnv and i = 1]
  have second: "initializeBitmap exampleEnv (Element image64x32)
      (blankBitmap\<lparr>b_source := Some 3, b_nominalBounds := Some 0\<rparr>) =
      blankBitmap\<lparr>b_nominalBounds := Some 0, b_image := Some image64x32, b_ready := True,
        b_source := Some 3,
        b_drawValues := Some [Finite (1 / 2), Finite (3 / 4), Finite 16, Finite 16, Finite 18,
           Finite 34, Finite 64, Finite 32, Finite 0, Finite 0, Finite 0, Finite 0],
        b_box := \<lparr>minX = 0, minY = 0, maxX = 64, maxY = 32\<rparr>\<rparr>"
    by (simp add: Let_def blankBitmap_def image64x32_def float_eval)
  from first second show ?thesis
    by (simp add: validRefs_blank n getSourceRect_def)
qed

text \<open>
  C1 as stated fails for a size that single precision cannot hold. For an image
  16777217 pixels wide the source region is (0, 0, 16777217, 32), and the slots 2 and 6
  of the buffer hold 16777216.
\<close>

theorem initializeBitmap_wide_counterexample:
  "validRefs blankBitmap \<and> img_width imageWide = 16777217 \<and>
   b_drawValues (Bitmap exampleEnv (Some (Element imageWide)) blankBitmap) =
     Some [Finite 0, Finite 0, Finite 16777216, Finite 32, Finite 0, Finite 0,
           Finite 16777216, Finite 32, Finite 0, Finite 0, Finite 0, Finite 0] \<and>
   b_rects (Bitmap exampleEnv (Some (Element imageWide)) blankBitmap) ! 5 =
     \<lparr>rect_x = 0, rect_y = 0, rect_width = 16777217, rect_height = 32\<rparr>"
  unfolding Bitmap_def option.case
  by (subst (1 2) initializeBitmap_eq [OF validRefs_blank(1)])
     (simp add: Let_def blankBitmap_def imageWide_def float_eval validRefs_blank [unfolded blankBitmap_def])

lemma bufferInvariant_blank: "bufferInvariant blankBitmap"
  by (simp add: bufferInvariant_def blankBitmap_def)

lemma bufferInvariant_initializeBitmap:
  "validRefs b \<Longrightarrow> bufferInvariant (initializeBitmap env v b)"
  by (simp add: initializeBitmap_eq bufferInvariant_def Let_def)

lemma setSourceRect_eq:
  "bufferInvariant b \<Longrightarrow>
   setSourceRect (Some r) b =
     Inr (b\<lparr>b_box := \<lparr>minX = 0, minY = 0, maxX = rect_width (b_rects b ! r),
                       maxY = rect_height (b_rects b ! r)\<rparr>,
            b_drawValues := Some
              ([fround (rect_x (b_rects b ! r)), fround (rect_y (b_rects b ! r)),
                fround (rect_width (b_rects b ! r)), fround (rect_height (b_rects b ! r)),
                Finite 0, Finite 0,
                fround (rect_width (b_rects b ! r)), fround (rect_height (b_rects b ! r))] @
               (case b_drawValues b of None \<Rightarrow> [] | Some d \<Rightarrow> drop 8 d)),
            b_source := Some r\<rparr>)"
  by (cases "b_drawValues b")
     (auto simp add: bufferInvariant_def setSourceRect_def Let_def Bitmap_setBoundingBox_def
       cloneFloat32Array_def fround_0 eval_nat_numeral)

lemma bufferInvariant_setSourceRect:
  "bufferInvariant b \<Longrightarrow> setSourceRect (Some r) b = Inr b' \<Longrightarrow> bufferInvariant b'"
  by (cases "b_drawValues b") (auto simp add: setSourceRect_eq bufferInvariant_def)

lemma bufferInvariant_setImage: "bufferInvariant b \<Longrightarrow> bufferInvariant (setImage env img b)"
  by (simp add: bufferInvariant_def setImage_def Let_def Bitmap_handleAttach_frame
      Bitmap_handleDetach_frame)

lemma bufferInvariant_handleEvent:
  "bufferInvariant b \<Longrightarrow> handleEvent env ev b = Inr b' \<Longrightarrow> bufferInvariant b'"
  by (cases "b_drawValues b"; cases "b_nominalBounds b")
     (auto simp add: bufferInvariant_def handleEvent_def Let_def setDrawValue_def
       Bitmap_setBoundingBox_def Bitmap_handleAttach_frame split: if_splits)

text \<open>
  C2, with the rounding of the buffer. On a bitmap whose buffer, if allocated, has the
  eight or twelve slots this class gives it, \<open>setSourceRect(r)\<close> returns normally;
  afterwards \<open>getSourceRect()\<close> is the object \<open>r\<close> itself (the same reference, the
  rectangles of the heap untouched), the bounding box is (0, 0, r.width, r.height), and
  the first eight slots of the buffer are
  [r.x, r.y, r.width, r.height, 0, 0, r.width, r.height], each value rounded to single
  precision, the slots behind them being left as they were (none when the buffer was
  allocated by this call); nothing else changes. For a rectangle whose fields are
  integers below 2^24 in magnitude the eight slots hold the exact values.
\<close>

theorem setSourceRect_result:
  "bufferInvariant b \<Longrightarrow>
   setSourceRect (Some r) b =
     Inr (b\<lparr>b_box := \<lparr>minX = 0, minY = 0, maxX = rect_width (b_rects b ! r),
                       maxY = rect_height (b_rects b ! r)\<rparr>,
            b_drawValues := Some
              ([fround (rect_x (b_rects b ! r)), fround (rect_y (b_rects b ! r)),
                fround (rect_width (b_rects b ! r)), fround (rect_height (b_rects b ! r)),
                Finite 0, Finite 0,
                fround (rect_width (b_rects b ! r)), fround (rect_height (b_rects b ! r))] @
               (case b_drawValues b of None \<Rightarrow> [] | Some d \<Rightarrow> drop 8 d)),
            b_source := Some r\<rparr>) \<and>
   (\<exists>b'. setSourceRect (Some r) b = Inr b' \<and> getSourceRect b' = Some r \<and>
      b_rects b' = b_rects b \<and>
      b_box b' = \<lparr>minX = 0, minY = 0, maxX = rect_width (b_rects b ! r),
                  maxY = rect_height (b_rects b ! r)\<rparr> \<and>
      (\<forall>x y w h :: int.
         b_rects b ! r =
           \<lparr>rect_x = of_int x, rect_y = of_int y, rect_width = of_int w,
            rect_height = of_int h\<rparr> \<and>
         \<bar>x\<bar> < 2 ^ 24 \<and> \<bar>y\<bar> < 2 ^ 24 \<and> \<bar>w\<bar> < 2 ^ 24 \<and> \<bar>h\<bar> < 2 ^ 24 \<longrightarrow>
         (\<exists>d. b_drawValues b' = Some d \<and>
            take 8 d = [Finite (of_int x), Finite (of_int y), Finite (of_int w),
                        Finite (of_int h), Finite 0, Finite 0, Finite (of_int w),
                        Finite (of_int h)])))"
  by (simp add: setSourceRect_eq getSourceRect_def fround_of_int)

theorem setSourceRect_result_witness:
  "bufferInvariant centredBitmap \<and>
   b_rects centredBitmap ! 2 = \<lparr>rect_x = 8, rect_y = 4, rect_width = 16, rect_height = 16\<rparr> \<and>
   setSourceRect (Some 2) centredBitmap =
     Inr (centredBitmap\<lparr>b_box := \<lparr>minX = 0, minY = 0, maxX = 16, maxY = 16\<rparr>,
            b_drawValues := Some
              [Finite 8, Finite 4, Finite 16, Finite 16, Finite 0, Finite 0, Finite 16,
               Finite 16, Finite 0, Finite 0, Finite 0, Finite 0],
            b_source := Some 2\<rparr>) \<and>
   b_rects centredBitmap ! 3 =
     \<lparr>rect_x = 1 / 2, rect_y = 3 / 4, rect_width = 16, rect_height = 16\<rparr> \<and>
   map_sum id b_drawValues (setSourceRect (Some 3) centredBitmap) =
     Inr (Some [Finite (1 / 2), Finite (3 / 4), Finite 16, Finite 16, Finite 0, Finite 0,
                Finite 16, Finite 16, Finite 0, Finite 0, Finite 0, Finite 0])"
  using setSourceRect_result [OF bufferInvariant_centredBitmap, of 2]
    setSourceRect_result [OF bufferInvariant_centredBitmap, of 3]
  by (simp add: centredBitmap_eval bufferInvariant_centredBitmap float_eval)

text \<open>
  C2 as stated fails for a field that single precision cannot hold. For the rectangle
  (0, 0, 16777217, 16) the bounding box is (0, 0, 16777217, 16), and the slots 2 and 6
  of the buffer hold 16777216.
\<close>

theorem setSourceRect_wide_counterexample:
  "bufferInvariant centredBitmap \<and>
   b_rects centredBitmap ! 4 =
     \<lparr>rect_x = 0, rect_y = 0, rect_width = 16777217, rect_height = 16\<rparr> \<and>
   map_sum id b_drawValues (setSourceRect (Some 4) centredBitmap) =
     Inr (Some [Finite 0, Finite 0, Finite 16777216, Finite 16, Finite 0, Finite 0,
                Finite 16777216, Finite 16, Finite 0, Finite 0, Finite 0, Finite 0])"
  by (simp add: setSourceRect_eq [OF bufferInvariant_centredBitmap] centredBitmap_eval
      bufferInvariant_centredBitmap float_eval)

text \<open>
  C9, at the input where the code departs from it: on a bitmap constructed with a null
  argument, whose buffer was never allocated, \<open>setSourceRect\<close> allocates the buffer from
  an array of eight zeros, so the buffer that the bitmap keeps has eight slots and not
  twelve.
\<close>

theorem setSourceRect_uninitialized_buffer:
  "map_sum id b_drawValues (setSourceRect (Some 2) (Bitmap exampleEnv None blankBitmap)) =
     Inr (Some [Finite 8, Finite 4, Finite 16, Finite 16, Finite 0, Finite 0, Finite 16,
                Finite 16]) \<and>
   map_sum id (map_option length \<circ> b_drawValues)
     (setSourceRect (Some 2) (Bitmap exampleEnv None blankBitmap)) = Inr (Some 8)"
  by (simp add: Bitmap_def setSourceRect_eq [OF bufferInvariant_blank])
     (simp add: blankBitmap_def float_eval)

section \<open>The Bitmap leaf: centering within the nominal bounds\<close>

lemma setImage_drawValues: "b_drawValues (setImage env img b) = b_drawValues b"
  by (simp add: setImage_def Let_def Bitmap_handleAttach_frame Bitmap_handleDetach_frame)

lemma offset_law:
  assumes "nominal - of_int actual \<le> 0 \<or>
    (toDouble (nominal - of_int actual) = nominal - of_int actual \<and>
     nominal - of_int actual < 2 ^ 25)"
  shows "(if toDouble (nominal - of_int actual) > 0
          then fround (of_int (sar1 (toDouble (nominal - of_int actual))))
          else Finite 0) = Finite (of_int (spec_offset nominal (of_int actual)))"
proof (cases "nominal - of_int actual \<le> 0")
  case True
  then have "toDouble (nominal - of_int actual) \<le> 0" by (rule toDouble_sign)
  with True show ?thesis by (simp add: spec_offset_def)
next
  case False
  with assms have e: "toDouble (nominal - of_int actual) = nominal - of_int actual"
    and u: "nominal - of_int actual < 2 ^ 25" by auto
  from False have p: "0 \<le> nominal - of_int actual" "0 < nominal - of_int actual" by simp_all
  from u have "nominal - of_int actual < 2 ^ 31" by simp
  with p have s: "sar1 (nominal - of_int actual) = \<lfloor>(nominal - of_int actual) / 2\<rfloor>"
    by (intro sar1_floor)
  from p u have "\<bar>sar1 (nominal - of_int actual)\<bar> < 2 ^ 24" by (intro sar1_bound)
  then have "fround (of_int (sar1 (nominal - of_int actual))) =
      Finite (of_int (sar1 (nominal - of_int actual)))"
    by (rule fround_of_int)
  with p show ?thesis by (simp add: e s spec_offset_def)
qed

lemma offset_law_int:
  assumes "k - actual < 2 ^ 25"
  shows "(if toDouble (of_int k - of_int actual) > 0
          then fround (of_int (sar1 (toDouble (of_int k - of_int actual))))
          else Finite 0) = Finite (of_int (spec_offset (of_int k) (of_int actual)))"
proof (rule offset_law)
  show "(of_int k :: rat) - of_int actual \<le> 0 \<or>
    (toDouble (of_int k - of_int actual) = of_int k - of_int actual \<and>
     (of_int k :: rat) - of_int actual < 2 ^ 25)"
  proof (cases "k - actual \<le> 0")
    case True
    then have "(of_int (k - actual) :: rat) \<le> 0" by (simp only: of_int_le_0_iff)
    then show ?thesis by simp
  next
    case False
    with assms have "\<bar>k - actual\<bar> < 2 ^ 53" by simp
    then have "toDouble (of_int (k - actual)) = of_int (k - actual)" by (rule toDouble_of_int)
    moreover from assms have "(of_int (k - actual) :: rat) < 2 ^ 25"
      by (simp only: of_int_less_numeral_power_cancel_iff)
    ultimately show ?thesis by simp
  qed
qed

lemma split1: "Suc n \<le> length d \<Longrightarrow> \<exists>v rest. d = v # rest \<and> n \<le> length rest"
  by (cases d) simp_all

lemma split8:
  assumes "8 \<le> length d"
  shows "\<exists>v0 v1 v2 v3 v4 v5 v6 v7 rest. d = v0 # v1 # v2 # v3 # v4 # v5 # v6 # v7 # rest"
proof -
  from assms have "Suc (Suc (Suc (Suc (Suc (Suc (Suc (Suc 0))))))) \<le> length d"
    by (simp add: eval_nat_numeral)
  then obtain v0 r0 where 0: "d = v0 # r0" "Suc (Suc (Suc (Suc (Suc (Suc (Suc 0)))))) \<le> length r0"
    using split1 by blast
  then obtain v1 r1 where 1: "r0 = v1 # r1" "Suc (Suc (Suc (Suc (Suc (Suc 0))))) \<le> length r1"
    using split1 by blast
  then obtain v2 r2 where 2: "r1 = v2 # r2" "Suc (Suc (Suc (Suc (Suc 0)))) \<le> length r2"
    using split1 by blast
  then obtain v3 r3 where 3: "r2 = v3 # r3" "Suc (Suc (Suc (Suc 0))) \<le> length r3"
    using split1 by blast
  then obtain v4 r4 where 4: "r3 = v4 # r4" "Suc (Suc (Suc 0)) \<le> length r4"
    using split1 by blast
  then obtain v5 r5 where 5: "r4 = v5 # r5" "Suc (Suc 0) \<le> length r5"
    using split1 by blast
  then obtain v6 r6 where 6: "r5 = v6 # r6" "Suc 0 \<le> length r6"
    using split1 by blast
  then obtain v7 r7 where 7: "r6 = v7 # r7"
    using split1 by blast
  from 0 1 2 3 4 5 6 7 show ?thesis by blast
qed

lemma handleEvent_load_eq:
  assumes "ev_type ev = ''load''" "b_source b = Some src" "src < length (b_rects b)"
    "b_drawValues b = Some d0" "8 \<le> length d0"
  shows "handleEvent env ev b =
    (let w = img_width (ev_target ev);
         h = img_height (ev_target ev);
         rects = (b_rects b)[src := (b_rects b ! src)\<lparr>rect_width := of_int w,
                    rect_height := of_int h\<rparr>];
         dx = (case b_nominalBounds b of
                 None \<Rightarrow> 0 | Some n \<Rightarrow> toDouble (rect_width (rects ! n) - of_int w));
         dy = (case b_nominalBounds b of
                 None \<Rightarrow> 0 | Some n \<Rightarrow> toDouble (rect_height (rects ! n) - of_int h))
     in Inr (Bitmap_handleAttach env 1
          (b\<lparr>b_calls := b_calls b @ [RemoveListeners (ev_target ev)],
             b_ready := True,
             b_rects := rects,
             b_drawValues := Some
               ([Finite 0, Finite 0, fround (of_int w), fround (of_int h),
                 (if dx > 0 then fround (of_int (sar1 dx)) else Finite 0),
                 (if dy > 0 then fround (of_int (sar1 dy)) else Finite 0),
                 fround (of_int w), fround (of_int h)] @ drop 8 d0),
             b_box := \<lparr>minX = 0, minY = 0, maxX = of_int w, maxY = of_int h\<rparr>\<rparr>)))"
proof -
  from split8 [OF assms(5)]
  obtain v0 v1 v2 v3 v4 v5 v6 v7 rest where d0: "d0 = v0 # v1 # v2 # v3 # v4 # v5 # v6 # v7 # rest"
    by blast
  show ?thesis
    using assms(1-4)
    by (cases "b_nominalBounds b")
       (simp_all add: handleEvent_def Let_def setDrawValue_def Bitmap_setBoundingBox_def d0
         fround_0)
qed

lemma initializeBitmap_offsets:
  assumes "validRefs b" "b_nominalBounds b = Some n"
  shows "\<exists>d. b_drawValues (initializeBitmap env v b) = Some d \<and>
    d ! 4 =
      (let w = img_width (case v of Url path \<Rightarrow> ImageFactory_get env path | Element img \<Rightarrow> img);
           dx = toDouble (rect_width (b_rects b ! n) - of_int w)
       in if dx > 0 then fround (of_int (sar1 dx)) else Finite 0) \<and>
    d ! 5 =
      (let h = img_height (case v of Url path \<Rightarrow> ImageFactory_get env path | Element img \<Rightarrow> img);
           dy = toDouble (rect_height (b_rects b ! n) - of_int h)
       in if dy > 0 then fround (of_int (sar1 dy)) else Finite 0)"
  using assms(2) by (simp add: initializeBitmap_eq [OF assms(1)] Let_def)

lemma handleEvent_load_offsets:
  assumes "ev_type ev = ''load''" "b_source b = Some src" "b_nominalBounds b = Some n"
    "validRefs b" "b_drawValues b \<noteq> None" "bufferInvariant b"
  shows "\<exists>b' d. handleEvent env ev b = Inr b' \<and> b_drawValues b' = Some d \<and>
    d ! 4 =
      (if n = src then Finite 0
       else (let dx = toDouble (rect_width (b_rects b ! n) - of_int (img_width (ev_target ev)))
             in if dx > 0 then fround (of_int (sar1 dx)) else Finite 0)) \<and>
    d ! 5 =
      (if n = src then Finite 0
       else (let dy = toDouble (rect_height (b_rects b ! n) - of_int (img_height (ev_target ev)))
             in if dy > 0 then fround (of_int (sar1 dy)) else Finite 0))"
proof -
  from assms(5) obtain d0 where d0: "b_drawValues b = Some d0" by auto
  with assms(6) have len: "8 \<le> length d0" by (auto simp add: bufferInvariant_def)
  from assms(2,4) have src: "src < length (b_rects b)" by (simp add: validRefs_def)
  show ?thesis
    using assms(3) src
    by (simp add: handleEvent_load_eq [OF assms(1,2) src d0 len] Let_def
        Bitmap_handleAttach_frame toDouble_0)
qed

lemma handleEvent_load_no_source:
  "ev_type ev = ''load'' \<Longrightarrow> b_source b = None \<Longrightarrow>
   handleEvent env ev b =
     Inr (b\<lparr>b_calls := b_calls b @ [RemoveListeners (ev_target ev)], b_ready := True,
            b_image := None\<rparr>)"
  by (simp add: handleEvent_def Let_def)

lemma handleEvent_load_no_buffer:
  "ev_type ev = ''load'' \<Longrightarrow> b_source b = Some src \<Longrightarrow> b_drawValues b = None \<Longrightarrow>
   handleEvent env ev b = Inl TypeError"
  by (simp add: handleEvent_def Let_def)

lemma setSourceRect_offsets:
  "bufferInvariant b \<Longrightarrow>
   \<exists>b' d. setSourceRect (Some r) b = Inr b' \<and> b_drawValues b' = Some d \<and>
     d ! 4 = Finite 0 \<and> d ! 5 = Finite 0"
  by (simp add: setSourceRect_eq)

text \<open>
  C3, as the code has it. Write \<open>off nominal actual\<close> for the value the code stores:
  with \<open>d\<close> the difference \<open>nominal - actual\<close> as a double, the single-precision
  rounding of \<open>d >> 1\<close> (the shift of the signed 32-bit value of \<open>d\<close>) when \<open>d > 0\<close>, and 0
  otherwise. This is the \<open>floor((nominal - actual) / 2)\<close> of the centering law, and 0
  when the nominal dimension does not exceed the actual one, whenever the difference is
  not positive, or is a double below 2^25; so it is for every integer nominal dimension
  with a difference below 2^25.

  With nominal bounds present and the references of the bitmap pointing into the heap,
  \<open>initializeBitmap_\<close> stores \<open>off nominal.width image.width\<close> in slot 4 and
  \<open>off nominal.height image.height\<close> in slot 5. The handler of a "load" event does the
  same with the sizes of the loaded image when the bitmap has a source region and a
  buffer of the eight or twelve slots this class gives it; when the nominal bounds and
  the source region are one object, whose sizes the handler has just overwritten with
  those of the image, both offsets are 0. On a bitmap without source region the handler
  of a "load" event only drops the image reference and touches neither buffer nor
  offsets, and on a bitmap with a source region and no buffer it raises a TypeError.
  The other two mutators do not apply the law: \<open>setSourceRect\<close> writes 0 in both slots,
  and \<open>setImage\<close> leaves the buffer as it is.
\<close>

theorem centering_offsets:
  "(let off = (\<lambda>nominal actual.
        (let d = toDouble (nominal - of_int actual)
         in if d > 0
            then fround (of_int (((\<lfloor>d\<rfloor> + 2 ^ 31) mod 2 ^ 32 - 2 ^ 31) div 2))
            else Finite 0));
        image = (case v of Url path \<Rightarrow> ImageFactory_get env path | Element img \<Rightarrow> img)
    in (\<forall>nominal actual.
          nominal - of_int actual \<le> 0 \<or>
          (toDouble (nominal - of_int actual) = nominal - of_int actual \<and>
           nominal - of_int actual < 2 ^ 25) \<longrightarrow>
          off nominal actual = Finite (of_int (spec_offset nominal (of_int actual)))) \<and>
       (\<forall>k actual. k - actual < 2 ^ 25 \<longrightarrow>
          off (of_int k) actual = Finite (of_int (spec_offset (of_int k) (of_int actual)))) \<and>
       (validRefs b \<and> b_nominalBounds b = Some n \<longrightarrow>
          (\<exists>d. b_drawValues (initializeBitmap env v b) = Some d \<and>
             d ! 4 = off (rect_width (b_rects b ! n)) (img_width image) \<and>
             d ! 5 = off (rect_height (b_rects b ! n)) (img_height image))) \<and>
       (ev_type ev = ''load'' \<and> b_source b = Some src \<and> b_nominalBounds b = Some n \<and>
        validRefs b \<and> b_drawValues b \<noteq> None \<and> bufferInvariant b \<longrightarrow>
          (\<exists>b' d. handleEvent env ev b = Inr b' \<and> b_drawValues b' = Some d \<and>
             d ! 4 = (if n = src then Finite 0
                      else off (rect_width (b_rects b ! n)) (img_width (ev_target ev))) \<and>
             d ! 5 = (if n = src then Finite 0
                      else off (rect_height (b_rects b ! n)) (img_height (ev_target ev))))) \<and>
       (ev_type ev = ''load'' \<and> b_source b = None \<longrightarrow>
          handleEvent env ev b =
            Inr (b\<lparr>b_calls := b_calls b @ [RemoveListeners (ev_target ev)], b_ready := True,
                   b_image := None\<rparr>)) \<and>
       (ev_type ev = ''load'' \<and> b_source b = Some src \<and> b_drawValues b = None \<longrightarrow>
          handleEvent env ev b = Inl TypeError) \<and>
       (bufferInvariant b \<longrightarrow>
          (\<exists>b' d. setSourceRect (Some r) b = Inr b' \<and> b_drawValues b' = Some d \<and>
             d ! 4 = Finite 0 \<and> d ! 5 = Finite 0)) \<and>
       b_drawValues (setImage env img b) = b_drawValues b)"
  unfolding Let_def
  apply (intro conjI impI allI)
  subgoal for nominal actual
    using offset_law [of nominal actual]
    by (cases "toDouble (nominal - of_int actual) > 0") (simp_all add: sar1_pos)
  subgoal for k actual
    using offset_law_int [of k actual]
    by (cases "toDouble (of_int k - of_int actual) > 0") (simp_all add: sar1_pos)
  subgoal
    using initializeBitmap_offsets [of b n env v]
    by (auto simp add: Let_def sar1_pos)
  subgoal
    using handleEvent_load_offsets [of ev b src n env]
    by (auto simp add: Let_def sar1_pos)
  subgoal by (simp add: handleEvent_load_no_source)
  subgoal by (simp add: handleEvent_load_no_buffer)
  subgoal using setSourceRect_offsets [of b r] by auto
  subgoal by (rule setImage_drawValues)
  done

lemma validRefs_centredBitmap: "validRefs centredBitmap"
  by (simp add: validRefs_def centredBitmap_eval)

lemma spec_offset_eval:
  "spec_offset 100 64 = 18" "spec_offset 100 32 = 34" "spec_offset 100 80 = 10"
  "spec_offset 100 40 = 30" "spec_offset 100 16 = 42"
  "spec_offset 33554498 64 = 16777217" "spec_offset 2147483712 64 = 1073741824"
  by (simp_all add: spec_offset_def)

theorem centering_offsets_witness:
  "validRefs centredBitmap \<and> b_nominalBounds centredBitmap = Some 0 \<and>
   b_source centredBitmap = Some 5 \<and> b_drawValues centredBitmap \<noteq> None \<and>
   bufferInvariant centredBitmap \<and>
   rect_width (b_rects centredBitmap ! 0) = 100 \<and>
   rect_height (b_rects centredBitmap ! 0) = 100 \<and>
   spec_offset 100 64 = 18 \<and> spec_offset 100 32 = 34 \<and>
   spec_offset 100 80 = 10 \<and> spec_offset 100 40 = 30 \<and>
   (\<exists>d. b_drawValues (initializeBitmap exampleEnv (Element image64x32) centredBitmap) = Some d \<and>
      d ! 4 = Finite 18 \<and> d ! 5 = Finite 34) \<and>
   (\<exists>b' d. handleEvent exampleEnv
        \<lparr>ev_type = ''load'', ev_target = \<lparr>img_id = 1, img_width = 80, img_height = 40\<rparr>\<rparr>
        centredBitmap = Inr b' \<and> b_drawValues b' = Some d \<and>
      d ! 4 = Finite 10 \<and> d ! 5 = Finite 30) \<and>
   (\<exists>b' d. setSourceRect (Some 2) centredBitmap = Inr b' \<and> b_drawValues b' = Some d \<and>
      d ! 4 = Finite 0 \<and> d ! 5 = Finite 0) \<and>
   b_drawValues (setImage exampleEnv None centredBitmap) = b_drawValues centredBitmap \<and>
   b_source blankBitmap = None \<and>
   handleEvent exampleEnv
     \<lparr>ev_type = ''load'', ev_target = \<lparr>img_id = 1, img_width = 80, img_height = 40\<rparr>\<rparr>
     blankBitmap =
     Inr (blankBitmap\<lparr>b_calls := [RemoveListeners \<lparr>img_id = 1, img_width = 80, img_height = 40\<rparr>],
            b_ready := True, b_image := None\<rparr>) \<and>
   b_drawValues (blankBitmap\<lparr>b_source := Some 2\<rparr>) = None \<and>
   handleEvent exampleEnv
     \<lparr>ev_type = ''load'', ev_target = \<lparr>img_id = 1, img_width = 80, img_height = 40\<rparr>\<rparr>
     (blankBitmap\<lparr>b_source := Some 2\<rparr>) = Inl TypeError"
proof -
  let ?ev = "\<lparr>ev_type = ''load'', ev_target = \<lparr>img_id = 1, img_width = 80, img_height = 40\<rparr>\<rparr>"
  note hyps = validRefs_centredBitmap bufferInvariant_centredBitmap centredBitmap_eval
  have c: "(\<exists>d. b_drawValues (initializeBitmap exampleEnv (Element image64x32) centredBitmap) = Some d \<and>
      d ! 4 = Finite 18 \<and> d ! 5 = Finite 34) \<and>
   (\<exists>b' d. handleEvent exampleEnv ?ev centredBitmap = Inr b' \<and> b_drawValues b' = Some d \<and>
      d ! 4 = Finite 10 \<and> d ! 5 = Finite 30) \<and>
   (\<exists>b' d. setSourceRect (Some 2) centredBitmap = Inr b' \<and> b_drawValues b' = Some d \<and>
      d ! 4 = Finite 0 \<and> d ! 5 = Finite 0) \<and>
   b_drawValues (setImage exampleEnv None centredBitmap) = b_drawValues centredBitmap"
    using centering_offsets [where b = centredBitmap and n = 0 and env = exampleEnv
        and v = "Element image64x32" and src = 5 and ev = ?ev and r = 2 and img = None]
    unfolding Let_def
    by (simp add: hyps image64x32_def float_eval)
  have n: "handleEvent exampleEnv ?ev blankBitmap =
     Inr (blankBitmap\<lparr>b_calls := [RemoveListeners \<lparr>img_id = 1, img_width = 80, img_height = 40\<rparr>],
            b_ready := True, b_image := None\<rparr>)"
    using centering_offsets [where b = blankBitmap and env = exampleEnv and ev = ?ev]
    unfolding Let_def
    by (simp add: blankBitmap_def)
  have t: "handleEvent exampleEnv ?ev (blankBitmap\<lparr>b_source := Some 2\<rparr>) = Inl TypeError"
    using centering_offsets [where b = "blankBitmap\<lparr>b_source := Some 2\<rparr>" and env = exampleEnv
        and ev = ?ev and src = 2]
    unfolding Let_def
    by (simp add: blankBitmap_def)
  from c n t show ?thesis
    by (simp add: hyps spec_offset_eval blankBitmap_def)
qed

lemma nominalBitmap_drawValues:
  "b_drawValues (nominalBitmap nominalWidth) = Some
     [Finite 0, Finite 0, Finite 64, Finite 32,
      (let d = toDouble (nominalWidth - 64)
       in if d > 0 then fround (of_int (sar1 d)) else Finite 0),
      Finite 34, Finite 64, Finite 32, Finite 0, Finite 0, Finite 0, Finite 0]"
  by (simp add: nominalBitmap_def Bitmap_def initializeBitmap_eq validRefs_def blankBitmap_def
      image64x32_def Let_def float_eval sar1_def ToInt32_def truncInt_def)

text \<open>
  C3 as stated fails. The bitmap of the 64 x 32 image centred in nominal bounds
  100 x 100 has the offsets 18 and 34. After \<open>setSourceRect\<close> with the region
  (8, 4, 16, 16) both offsets are 0, and after \<open>setImage\<close> with a 32 x 32 image they are
  still 18 and 34, where the law gives 34 and 34. With nominal bounds 33554498 wide the
  difference is 33554434 and the stored offset is 16777216, where the law gives
  16777217; with nominal bounds 2147483712 wide the difference is 2^31 and the stored
  offset is -1073741824, where the law gives 1073741824.
\<close>

theorem offsets_counterexample:
  "b_drawValues centredBitmap =
     Some [Finite 0, Finite 0, Finite 64, Finite 32, Finite 18, Finite 34, Finite 64, Finite 32,
           Finite 0, Finite 0, Finite 0, Finite 0] \<and>
   rect_width (b_rects centredBitmap ! 0) = 100 \<and>
   rect_height (b_rects centredBitmap ! 0) = 100 \<and>
   map_sum id b_drawValues (setSourceRect (Some 2) centredBitmap) =
     Inr (Some [Finite 8, Finite 4, Finite 16, Finite 16, Finite 0, Finite 0, Finite 16,
                Finite 16, Finite 0, Finite 0, Finite 0, Finite 0]) \<and>
   spec_offset 100 64 = 18 \<and> spec_offset 100 16 = 42 \<and>
   b_drawValues (setImage exampleEnv (Some \<lparr>img_id = 2, img_width = 32, img_height = 32\<rparr>)
      centredBitmap) =
     Some [Finite 0, Finite 0, Finite 64, Finite 32, Finite 18, Finite 34, Finite 64, Finite 32,
           Finite 0, Finite 0, Finite 0, Finite 0] \<and>
   spec_offset 100 32 = 34 \<and>
   b_drawValues (nominalBitmap 33554498) =
     Some [Finite 0, Finite 0, Finite 64, Finite 32, Finite 16777216, Finite 34, Finite 64,
           Finite 32, Finite 0, Finite 0, Finite 0, Finite 0] \<and>
   spec_offset 33554498 64 = 16777217 \<and>
   b_drawValues (nominalBitmap 2147483712) =
     Some [Finite 0, Finite 0, Finite 64, Finite 32, Finite (- 1073741824), Finite 34,
           Finite 64, Finite 32, Finite 0, Finite 0, Finite 0, Finite 0] \<and>
   spec_offset 2147483712 64 = 1073741824"
  by (simp add: centredBitmap_eval spec_offset_eval setImage_drawValues nominalBitmap_drawValues
      setSourceRect_eq [OF bufferInvariant_centredBitmap] float_eval sar1_def ToInt32_def
      truncInt_def Let_def)

section \<open>Attach and detach\<close>


lemma cacheMasks_frame: "cacheMasks flag ms s = s\<lparr>s_heap := s_heap (cacheMasks flag ms s)\<rparr>"
proof (induction ms arbitrary: s)
  case Nil
  show ?case by simp
next
  case (Cons m ms)
  from Cons.IH [of "Graphics_cache flag m s"] show ?case
    by (simp add: Graphics_cache_def)
qed


lemma cacheMasks_cached:
  "gcached (s_heap (cacheMasks flag ms s) g) = (g \<in> set ms \<or> gcached (s_heap s g))"
  by (induction ms arbitrary: s) (auto simp add: Graphics_cache_def)

lemma cacheMasks_fields:
  "s_graphics (cacheMasks flag ms s) = s_graphics s"
  "s_masks (cacheMasks flag ms s) = s_masks s"
  by (subst cacheMasks_frame, simp)+






lemma Shape_handleAttach_result:
  "s_graphics s = Some g \<Longrightarrow> flag \<noteq> 0 \<Longrightarrow>
   \<exists>s1. Shape_handleAttach flag s = Inr s1 \<and> s_graphics s1 = Some g \<and>
        s_masks s1 = s_masks s \<and> gcached (s_heap s1 g)"
  by (auto simp add: Shape_handleAttach_def getGraphics_def Let_def Graphics_cache_def
      Shape_setBoundingBox_def cacheMasks_fields cacheMasks_cached)













section \<open>Hit-test memoization\<close>










end
